theory Spec2Isabelle
  imports Main
begin

section \<open>Text operations of the Python runtime used by \<open>main.py\<close>\<close>

text \<open>
  Text is a list of 8-bit characters, read as the code points 0..255. File contents are
  lists of bytes of the same type.
\<close>

definition startswith :: "string \<Rightarrow> string \<Rightarrow> bool" where
  \<comment> \<open>\<open>s.startswith(p)\<close>\<close>
  "startswith p s = (take (length p) s = p)"

definition endswith :: "string \<Rightarrow> string \<Rightarrow> bool" where
  \<comment> \<open>\<open>s.endswith(p)\<close>\<close>
  "endswith p s = (length p \<le> length s \<and> drop (length s - length p) s = p)"

fun join :: "string \<Rightarrow> string list \<Rightarrow> string" where
  \<comment> \<open>\<open>sep.join(xs)\<close> for a list of strings\<close>
  "join sep [] = []"
| "join sep [x] = x"
| "join sep (x # y # ys) = x @ sep @ join sep (y # ys)"

definition replace_char :: "char \<Rightarrow> char \<Rightarrow> string \<Rightarrow> string" where
  \<comment> \<open>\<open>s.replace(a, b)\<close> for one-character \<open>a\<close> and \<open>b\<close>\<close>
  "replace_char a b s = map (\<lambda>c. if c = a then b else c) s"

definition isspace :: "char \<Rightarrow> bool" where
  \<comment> \<open>\<open>str.isspace\<close> on the code points below 256\<close>
  "isspace c = (let n = (of_char c :: nat) in
     (9 \<le> n \<and> n \<le> 13) \<or> (28 \<le> n \<and> n \<le> 32) \<or> n = 133 \<or> n = 160)"

definition strip :: "string \<Rightarrow> string" where
  \<comment> \<open>\<open>s.strip()\<close>\<close>
  "strip s = rev (dropWhile isspace (rev (dropWhile isspace s)))"

definition lower_char :: "char \<Rightarrow> char" where
  \<comment> \<open>\<open>str.lower\<close> on one code point below 256: A-Z and the Latin-1 capitals\<close>
  "lower_char c = (let n = (of_char c :: nat) in
     if (65 \<le> n \<and> n \<le> 90) \<or> (192 \<le> n \<and> n \<le> 222 \<and> n \<noteq> 215)
     then char_of (n + 32) else c)"

definition lower :: "string \<Rightarrow> string" where
  "lower s = map lower_char s"

definition newline :: char where
  "newline = CHR 0x0A"

definition split_maxsplit1 :: "char \<Rightarrow> string \<Rightarrow> string list" where
  \<comment> \<open>\<open>s.split(sep, 1)\<close> for a one-character separator: cut at its first occurrence\<close>
  "split_maxsplit1 sep s =
     (case dropWhile (\<lambda>c. c \<noteq> sep) s of
        [] \<Rightarrow> [s]
      | _ # post \<Rightarrow> [takeWhile (\<lambda>c. c \<noteq> sep) s, post])"

definition rsplit_maxsplit1 :: "char \<Rightarrow> string \<Rightarrow> string list" where
  \<comment> \<open>\<open>s.rsplit(sep, 1)\<close> for a one-character separator: cut at its last occurrence\<close>
  "rsplit_maxsplit1 sep s =
     (case dropWhile (\<lambda>c. c \<noteq> sep) (rev s) of
        [] \<Rightarrow> [s]
      | _ # pre \<Rightarrow> [rev pre, rev (takeWhile (\<lambda>c. c \<noteq> sep) (rev s))])"

definition path_join :: "string \<Rightarrow> string \<Rightarrow> string" where
  \<comment> \<open>\<open>os.path.join(a, b)\<close> of \<open>posixpath\<close>\<close>
  "path_join a b =
     (if startswith ''/'' b then b
      else if a = [] \<or> endswith ''/'' a then a @ b
      else a @ ''/'' @ b)"

text \<open>
  Splitting a stored string on a delimiter, as the specification's round-trip property
  uses it (the program itself only joins): the left-to-right, non-overlapping split of
  \<open>s.split(sep)\<close>. The separator is one of the two join delimiters; with an empty
  separator, where Python raises, nothing is cut.
\<close>

fun has_sub :: "string \<Rightarrow> string \<Rightarrow> bool" where
  \<comment> \<open>\<open>sep in s\<close>\<close>
  "has_sub sep [] = (sep = [])"
| "has_sub sep (c # cs) = (startswith sep (c # cs) \<or> has_sub sep cs)"

function split_on :: "string \<Rightarrow> string \<Rightarrow> string list" where
  "split_on sep [] = [[]]"
| "split_on sep (c # cs) =
     (if sep \<noteq> [] \<and> startswith sep (c # cs)
      then [] # split_on sep (drop (length sep) (c # cs))
      else (let r = split_on sep cs in (c # hd r) # tl r))"
  by pat_completeness auto
termination
  by (relation "measure (\<lambda>(sep, s). length s)") auto


section \<open>Values of \<open>json.loads\<close>\<close>

text \<open>
  The values the standard library's JSON decoder returns: \<open>None\<close>, \<open>bool\<close>, \<open>int\<close>
  (unbounded), \<open>float\<close>, \<open>str\<close>, \<open>list\<close> and \<open>dict\<close>. A float is kept as the literal
  it was read from (\<open>NaN\<close>, \<open>Infinity\<close> and \<open>-Infinity\<close> included). A dict is an
  association list in insertion order; assigning an existing key replaces its value in
  place, as Python's dict does.
\<close>

datatype json =
    JNull
  | JBool bool
  | JInt int
  | JFloat string
  | JStr string
  | JArr "json list"
  | JObj "(string \<times> json) list"

fun dict_get :: "(string \<times> json) list \<Rightarrow> string \<Rightarrow> json option" where
  "dict_get [] k = None"
| "dict_get ((k', v) # ps) k = (if k' = k then Some v else dict_get ps k)"

fun dict_set :: "(string \<times> json) list \<Rightarrow> string \<Rightarrow> json \<Rightarrow> (string \<times> json) list" where
  "dict_set [] k v = [(k, v)]"
| "dict_set ((k', v') # ps) k v = (if k' = k then (k, v) # ps else (k', v') # dict_set ps k v)"

subsection \<open>Numbers\<close>

text \<open>
  An integer literal of more than 4300 digits is refused by the conversion to \<open>int\<close>
  with a \<open>ValueError\<close> (the default of \<open>sys.int_info.default_max_str_digits\<close>); a float
  literal has no such bound.
\<close>

definition int_max_str_digits :: nat where
  "int_max_str_digits = 4300"

definition is_digit :: "char \<Rightarrow> bool" where
  "is_digit c = (let n = (of_char c :: nat) in 48 \<le> n \<and> n \<le> 57)"

definition digit_val :: "char \<Rightarrow> nat" where
  "digit_val c = of_char c - 48"

definition digits_val :: "string \<Rightarrow> nat" where
  "digits_val ds = foldl (\<lambda>a c. 10 * a + digit_val c) 0 ds"

definition split_sign :: "string \<Rightarrow> bool \<times> string" where
  "split_sign s = (case s of c # r \<Rightarrow> if c = CHR ''-'' then (True, r) else (False, s) | [] \<Rightarrow> (False, s))"

definition valid_int_part :: "string \<Rightarrow> bool" where
  \<comment> \<open>\<open>0|[1-9]\d*\<close>\<close>
  "valid_int_part ds = (ds \<noteq> [] \<and> (ds = ''0'' \<or> hd ds \<noteq> CHR ''0''))"

definition valid_frac :: "string \<Rightarrow> (string \<times> string) option" where
  \<comment> \<open>\<open>(\.\d+)?\<close>: the fraction digits and the rest\<close>
  "valid_frac s =
     (case s of
        c # r \<Rightarrow>
          if c = CHR ''.''
          then (if takeWhile is_digit r = [] then None
                else Some (takeWhile is_digit r, dropWhile is_digit r))
          else Some ([], s)
      | [] \<Rightarrow> Some ([], s))"

definition valid_exp :: "string \<Rightarrow> (bool \<times> bool \<times> string) option" where
  \<comment> \<open>\<open>([eE][-+]?\d+)?\<close> to the end: whether present, whether negative, its digits\<close>
  "valid_exp s =
     (case s of
        [] \<Rightarrow> Some (False, False, [])
      | c # r \<Rightarrow>
          if c = CHR ''e'' \<or> c = CHR ''E''
          then (let (neg, ds) = (case r of
                                   d # r' \<Rightarrow> if d = CHR ''-'' then (True, r')
                                             else if d = CHR ''+'' then (False, r')
                                             else (False, r)
                                 | [] \<Rightarrow> (False, r))
                in if ds \<noteq> [] \<and> list_all is_digit ds then Some (True, neg, ds) else None)
          else None)"

definition number_value :: "string \<Rightarrow> json option" where
  \<comment> \<open>the decoder's number syntax \<open>-?(0|[1-9]\d*)(\.\d+)?([eE][-+]?\d+)?\<close>: an \<open>int\<close>
      without fraction and exponent, a \<open>float\<close> otherwise\<close>
  "number_value s =
     (let (neg, r) = split_sign s;
          ip = takeWhile is_digit r
      in if \<not> valid_int_part ip then None
         else (case valid_frac (dropWhile is_digit r) of
                 None \<Rightarrow> None
               | Some (fs, r2) \<Rightarrow>
                   (case valid_exp r2 of
                      None \<Rightarrow> None
                    | Some (has_e, eneg, es) \<Rightarrow>
                        if fs = [] \<and> \<not> has_e
                        then Some (JInt (if neg then - int (digits_val ip) else int (digits_val ip)))
                        else Some (JFloat s))))"

definition frac_follows :: "string \<Rightarrow> bool" where
  \<comment> \<open>a fraction starts here: a point and a digit\<close>
  "frac_follows s = (case s of c # d # _ \<Rightarrow> c = CHR ''.'' \<and> is_digit d | _ \<Rightarrow> False)"

definition exp_follows :: "string \<Rightarrow> bool" where
  \<comment> \<open>an exponent starts here: \<open>e\<close> or \<open>E\<close>, an optional sign and a digit\<close>
  "exp_follows s =
     (case s of
        c # r \<Rightarrow>
          (c = CHR ''e'' \<or> c = CHR ''E'')
          \<and> (case r of
                d # r' \<Rightarrow>
                  is_digit d
                  \<or> ((d = CHR ''+'' \<or> d = CHR ''-'')
                      \<and> (case r' of x # _ \<Rightarrow> is_digit x | [] \<Rightarrow> False))
              | [] \<Rightarrow> False)
      | [] \<Rightarrow> False)"

definition overlong_int :: "string \<Rightarrow> bool" where
  \<comment> \<open>the longest number the decoder matches at the start of \<open>s\<close> is an integer of more
      digits than \<open>int\<close> converts\<close>
  "overlong_int s =
     (let (neg, r) = split_sign s;
          ip = takeWhile is_digit r;
          rest = dropWhile is_digit r
      in ip \<noteq> [] \<and> hd ip \<noteq> CHR ''0'' \<and> int_max_str_digits < length ip
         \<and> \<not> frac_follows rest \<and> \<not> exp_follows rest)"

definition atom_value :: "string \<Rightarrow> json option" where
  \<comment> \<open>a scalar that is not a string: the constants, Python's non-finite floats, a number\<close>
  "atom_value s =
     (if s = ''null'' then Some JNull
      else if s = ''true'' then Some (JBool True)
      else if s = ''false'' then Some (JBool False)
      else if s = ''NaN'' \<or> s = ''Infinity'' \<or> s = ''-Infinity'' then Some (JFloat s)
      else number_value s)"

definition float_is_zero :: "string \<Rightarrow> bool" where
  \<comment> \<open>whether the double nearest to a float literal is zero: its digits are all zero, or
      its value is at most \<open>2^-1075\<close>, half the least subnormal, which rounds to zero\<close>
  "float_is_zero s =
     (if s = ''NaN'' \<or> s = ''Infinity'' \<or> s = ''-Infinity'' then False
      else (let (neg, r) = split_sign s;
                ip = takeWhile is_digit r
            in case valid_frac (dropWhile is_digit r) of
                 None \<Rightarrow> False
               | Some (fs, r2) \<Rightarrow>
                   (case valid_exp r2 of
                      None \<Rightarrow> False
                    | Some (has_e, eneg, es) \<Rightarrow>
                        (let m = int (digits_val (ip @ fs));
                             e = (if eneg then - int (digits_val es) else int (digits_val es))
                                 - int (length fs)
                         in m = 0 \<or> (e < 0 \<and> m * 2 ^ 1075 \<le> 10 ^ nat (- e))))))"

fun truthy :: "json \<Rightarrow> bool" where
  \<comment> \<open>the truth value Python's \<open>if v:\<close> gives a decoded value\<close>
  "truthy JNull = False"
| "truthy (JBool b) = b"
| "truthy (JInt i) = (i \<noteq> 0)"
| "truthy (JFloat s) = (\<not> float_is_zero s)"
| "truthy (JStr s) = (s \<noteq> [])"
| "truthy (JArr xs) = (xs \<noteq> [])"
| "truthy (JObj ps) = (ps \<noteq> [])"

subsection \<open>Scanning\<close>

text \<open>
  The decoder is modelled in two passes over the text, each one step per item: a scanner
  from characters to tokens and a stack machine from tokens to a value. The decoder
  reads the text from left to right and raises at the first thing it cannot accept, so
  the scanner never fails: where it cannot go on it ends the token list with \<open>TBad\<close>,
  and the stack machine raises when it comes to that token, unless it has raised before.

  A scalar that is not a string is scanned as the longest run of letters, digits, \<open>+\<close>,
  \<open>-\<close> and \<open>.\<close> and then classified; the decoder accepts exactly the runs \<open>atom_value\<close>
  accepts, because whatever it reads must be followed by white space, a comma, a closing
  bracket or the end. A run that starts with an integer too long to convert is the token
  \<open>TTooLong\<close>. Strings are decoded in strict mode (no raw control character). A
  \<open>\uXXXX\<close> escape above \<open>\u00ff\<close> is outside the 8-bit character type; the scanner
  ends with \<open>TBad\<close> for it, where Python decodes it.
\<close>

datatype tok =
  TLBrace | TRBrace | TLBrack | TRBrack | TComma | TColon | TVal json | TTooLong | TBad

datatype lexstate =
    LStart
  | LAtom string
  | LStr string
  | LEsc string
  | LUni string string
  | LFail

definition json_ws :: "char \<Rightarrow> bool" where
  "json_ws c = (c = CHR '' '' \<or> c = CHR 0x09 \<or> c = CHR 0x0A \<or> c = CHR 0x0D)"

definition atom_char :: "char \<Rightarrow> bool" where
  "atom_char c = (let n = (of_char c :: nat) in
     (48 \<le> n \<and> n \<le> 57) \<or> (65 \<le> n \<and> n \<le> 90) \<or> (97 \<le> n \<and> n \<le> 122)
     \<or> c = CHR ''+'' \<or> c = CHR ''-'' \<or> c = CHR ''.'')"

definition hex_val :: "char \<Rightarrow> nat option" where
  "hex_val c = (let n = (of_char c :: nat) in
     if 48 \<le> n \<and> n \<le> 57 then Some (n - 48)
     else if 65 \<le> n \<and> n \<le> 70 then Some (n - 55)
     else if 97 \<le> n \<and> n \<le> 102 then Some (n - 87)
     else None)"

definition escape_char :: "char \<Rightarrow> char option" where
  "escape_char c =
     (if c = CHR 0x22 then Some (CHR 0x22)
      else if c = CHR 0x5C then Some (CHR 0x5C)
      else if c = CHR ''/'' then Some (CHR ''/'')
      else if c = CHR ''b'' then Some (CHR 0x08)
      else if c = CHR ''f'' then Some (CHR 0x0C)
      else if c = CHR ''n'' then Some (CHR 0x0A)
      else if c = CHR ''r'' then Some (CHR 0x0D)
      else if c = CHR ''t'' then Some (CHR 0x09)
      else None)"

definition atom_tok :: "string \<Rightarrow> tok" where
  "atom_tok a =
     (if overlong_int a then TTooLong
      else case atom_value a of None \<Rightarrow> TBad | Some v \<Rightarrow> TVal v)"

definition lex_start :: "tok list \<Rightarrow> char \<Rightarrow> lexstate \<times> tok list" where
  \<comment> \<open>one character between tokens; the tokens are collected in reverse\<close>
  "lex_start acc c =
     (if json_ws c then (LStart, acc)
      else if c = CHR 0x22 then (LStr [], acc)
      else if c = CHR ''{'' then (LStart, TLBrace # acc)
      else if c = CHR ''}'' then (LStart, TRBrace # acc)
      else if c = CHR ''['' then (LStart, TLBrack # acc)
      else if c = CHR '']'' then (LStart, TRBrack # acc)
      else if c = CHR '','' then (LStart, TComma # acc)
      else if c = CHR '':'' then (LStart, TColon # acc)
      else if atom_char c then (LAtom [c], acc)
      else (LFail, TBad # acc))"

fun lex_step :: "lexstate \<Rightarrow> tok list \<Rightarrow> char \<Rightarrow> lexstate \<times> tok list" where
  "lex_step LStart acc c = lex_start acc c"
| "lex_step (LAtom a) acc c =
     (if atom_char c then (LAtom (c # a), acc)
      else lex_start (atom_tok (rev a) # acc) c)"
| "lex_step (LStr s) acc c =
     (if c = CHR 0x22 then (LStart, TVal (JStr (rev s)) # acc)
      else if c = CHR 0x5C then (LEsc s, acc)
      else if (of_char c :: nat) < 32 then (LFail, TBad # acc)
      else (LStr (c # s), acc))"
| "lex_step (LEsc s) acc c =
     (if c = CHR ''u'' then (LUni s [], acc)
      else (case escape_char c of
              None \<Rightarrow> (LFail, TBad # acc)
            | Some d \<Rightarrow> (LStr (d # s), acc)))"
| "lex_step (LUni s h) acc c =
     (case hex_val c of
        None \<Rightarrow> (LFail, TBad # acc)
      | Some d \<Rightarrow>
          if length h < 3 then (LUni s (c # h), acc)
          else (let n = foldl (\<lambda>a x. 16 * a + (case hex_val x of Some v \<Rightarrow> v | None \<Rightarrow> 0)) 0
                          (rev (c # h))
                in if n < 256 then (LStr (char_of n # s), acc) else (LFail, TBad # acc)))"
| "lex_step LFail acc c = (LFail, acc)"

fun lex :: "lexstate \<Rightarrow> tok list \<Rightarrow> string \<Rightarrow> tok list" where
  "lex st acc [] =
     (case st of
        LStart \<Rightarrow> rev acc
      | LAtom a \<Rightarrow> rev (atom_tok (rev a) # acc)
      | LFail \<Rightarrow> rev acc
      | _ \<Rightarrow> rev (TBad # acc))"
| "lex st acc (c # cs) = (case lex_step st acc c of (st', acc') \<Rightarrow> lex st' acc' cs)"

subsection \<open>Building the value\<close>

datatype frame =
    FArr "json list"
  | FObj "(string \<times> json) list"
  | FKey "(string \<times> json) list" string

datatype mode = MValue | MArrFirst | MObjFirst | MKey | MColon | MAfter | MDone json

fun deliver :: "json \<Rightarrow> frame list \<Rightarrow> (mode \<times> frame list) option" where
  \<comment> \<open>a finished value goes to the innermost open container, or is the result\<close>
  "deliver v [] = Some (MDone v, [])"
| "deliver v (FArr xs # st) = Some (MAfter, FArr (v # xs) # st)"
| "deliver v (FKey ps k # st) = Some (MAfter, FObj (dict_set ps k v) # st)"
| "deliver v (FObj ps # st) = None"

fun parse_step :: "mode \<Rightarrow> frame list \<Rightarrow> tok \<Rightarrow> (mode \<times> frame list) option" where
  "parse_step MValue st (TVal v) = deliver v st"
| "parse_step MValue st TLBrack = Some (MArrFirst, FArr [] # st)"
| "parse_step MValue st TLBrace = Some (MObjFirst, FObj [] # st)"
| "parse_step MArrFirst st (TVal v) = deliver v st"
| "parse_step MArrFirst st TLBrack = Some (MArrFirst, FArr [] # st)"
| "parse_step MArrFirst st TLBrace = Some (MObjFirst, FObj [] # st)"
| "parse_step MArrFirst (FArr xs # st) TRBrack = deliver (JArr (rev xs)) st"
| "parse_step MObjFirst (FObj ps # st) (TVal (JStr k)) = Some (MColon, FKey ps k # st)"
| "parse_step MObjFirst (FObj ps # st) TRBrace = deliver (JObj ps) st"
| "parse_step MKey (FObj ps # st) (TVal (JStr k)) = Some (MColon, FKey ps k # st)"
| "parse_step MColon st TColon = Some (MValue, st)"
| "parse_step MAfter (FArr xs # st) TComma = Some (MValue, FArr xs # st)"
| "parse_step MAfter (FObj ps # st) TComma = Some (MKey, FObj ps # st)"
| "parse_step MAfter (FArr xs # st) TRBrack = deliver (JArr (rev xs)) st"
| "parse_step MAfter (FObj ps # st) TRBrace = deliver (JObj ps) st"
| "parse_step _ _ _ = None"

text \<open>
  Every container the decoder opens is one more level of recursion in the interpreter,
  which raises \<open>RecursionError\<close> beyond its limit, 1000 unless it is changed. The frames
  of the callers count too: nine when \<open>analyze_image\<close> decodes (the module, \<open>main\<close>,
  \<open>process_uploaded_images\<close>, two of the retry decorator, \<open>analyze_image\<close>, \<open>loads\<close>,
  \<open>decode\<close> and \<open>raw_decode\<close>), and the interpreter raises when the depth reaches the
  limit. The numbers are those of CPython 3.11.
\<close>

definition recursion_limit :: nat where
  "recursion_limit = 1000"

definition frames_in_use :: nat where
  "frames_in_use = 9"

definition max_nesting :: nat where
  "max_nesting = recursion_limit - 1 - frames_in_use"

datatype decode_error = JSONDecodeError | ValueError | RecursionError

definition expects_value :: "mode \<Rightarrow> bool" where
  "expects_value m = (case m of MValue \<Rightarrow> True | MArrFirst \<Rightarrow> True | _ \<Rightarrow> False)"

definition parse_tok ::
  "mode \<Rightarrow> frame list \<Rightarrow> tok \<Rightarrow> decode_error + (mode \<times> frame list)" where
  \<comment> \<open>one token: where a value is expected, an integer too long raises \<open>ValueError\<close> and
      a container too deep \<open>RecursionError\<close>; anything else that does not fit raises
      \<open>JSONDecodeError\<close>\<close>
  "parse_tok m st t =
     (if expects_value m \<and> t = TTooLong then Inl ValueError
      else if expects_value m \<and> (t = TLBrack \<or> t = TLBrace) \<and> max_nesting \<le> length st
      then Inl RecursionError
      else case parse_step m st t of
             None \<Rightarrow> Inl JSONDecodeError
           | Some r \<Rightarrow> Inr r)"

fun parse :: "mode \<Rightarrow> frame list \<Rightarrow> tok list \<Rightarrow> decode_error + json" where
  "parse m st [] = (case m of MDone v \<Rightarrow> Inr v | _ \<Rightarrow> Inl JSONDecodeError)"
| "parse m st (t # ts) =
     (case parse_tok m st t of
        Inl e \<Rightarrow> Inl e
      | Inr (m', st') \<Rightarrow> parse m' st' ts)"

definition json_loads :: "string \<Rightarrow> decode_error + json" where
  \<comment> \<open>\<open>json.loads(text)\<close>: the value, or the exception raised\<close>
  "json_loads text = parse MValue [] (lex LStart [] text)"


section \<open>The world the script acts on\<close>

text \<open>
  The file system is a map from paths to what a directory lists as a file (directories
  are implicit: creating one changes nothing and cannot fail): a file with its bytes, a
  file that cannot be read, or a symbolic link whose target is missing, which is listed
  but cannot be opened. The catalog is the \<open>products\<close> table of \<open>initialize_database\<close>.
  The log has one event per \<open>logging\<close> call of the script.
\<close>

datatype fnode = Bytes string | Unreadable | Dangling

datatype sqlval = SNull | SInt int | SReal string | SText string

record product_row =
  row_id :: int
  name :: sqlval
  description :: sqlval
  image_url :: sqlval
  category :: sqlval
  material :: sqlval
  color :: sqlval
  dimensions :: sqlval
  origin_source :: sqlval
  import_cost :: sqlval
  retail_price :: sqlval
  key_tags :: sqlval

record database =
  rows :: "product_row list"
  seq :: int

datatype event =
    ImageFileNotFound string
  | ErrorEncodingImage string
  | SendingRequest
  | ResponseStatus
  | ResponseText string
  | RequestFailed
  | DecodeFailed
  | DecodeFailedText string
  | UnexpectedError
  | InsertedProductInfo string
  | InsertFailed
  | StartProcessing
  | CreatedBatchDir string
  | Traversing string
  | FoundFile string
  | ProcessingImage string
  | ProcessedOk string
  | ErrorInserting string string
  | FailedToAnalyze string
  | AlreadyExists string
  | CouldNotEncode string
  | Finished string

record world =
  files :: "string \<rightharpoonup> fnode"
  db :: database
  log :: "event list"

definition logging :: "event \<Rightarrow> world \<Rightarrow> world" where
  "logging e w = w\<lparr>log := log w @ [e]\<rparr>"

datatype exn = KeyError string | TypeError | IndexError | OverflowError | OSError | RetryError

definition DATA_DIR :: string where
  "DATA_DIR = ''data''"

definition UPLOADS_DIR :: string where
  "UPLOADS_DIR = path_join (path_join DATA_DIR ''images'') ''uploads''"

definition INVENTORY_IMAGES_DIR :: string where
  "INVENTORY_IMAGES_DIR = path_join (path_join DATA_DIR ''images'') ''inventory''"

section \<open>Image Codec: \<open>encode_image_to_base64\<close>\<close>

definition b64_alphabet :: string where
  "b64_alphabet = ''ABCDEFGHIJKLMNOPQRSTUVWXYZabcdefghijklmnopqrstuvwxyz0123456789+/''"

definition b64_char :: "nat \<Rightarrow> char" where
  "b64_char i = b64_alphabet ! (i mod 64)"

fun b64encode :: "string \<Rightarrow> string" where
  \<comment> \<open>\<open>base64.b64encode(data).decode('utf-8')\<close>\<close>
  "b64encode [] = []"
| "b64encode [a] =
     (let n = (of_char a :: nat) * 65536
      in [b64_char (n div 262144), b64_char (n div 4096), CHR ''='', CHR ''=''])"
| "b64encode [a, b] =
     (let n = (of_char a :: nat) * 65536 + of_char b * 256
      in [b64_char (n div 262144), b64_char (n div 4096), b64_char (n div 64), CHR ''=''])"
| "b64encode (a # b # c # rest) =
     (let n = (of_char a :: nat) * 65536 + of_char b * 256 + of_char c
      in [b64_char (n div 262144), b64_char (n div 4096), b64_char (n div 64), b64_char n])
     @ b64encode rest"

definition encode_image_to_base64 :: "world \<Rightarrow> string \<Rightarrow> string option \<times> world" where
  "encode_image_to_base64 w image_path =
     (case files w image_path of
        None \<Rightarrow> (None, logging (ImageFileNotFound image_path) w)
      | Some Dangling \<Rightarrow> (None, logging (ImageFileNotFound image_path) w)
      | Some Unreadable \<Rightarrow> (None, logging (ErrorEncodingImage image_path) w)
      | Some (Bytes data) \<Rightarrow> (Some (b64encode data), w))"

section \<open>Feature Extractor: \<open>analyze_image\<close>\<close>

text \<open>
  The inference service is an oracle: what it answers to the request for an encoded
  image on the n-th attempt. \<open>RequestFailure\<close> is a \<open>requests\<close> exception before any
  response is read (no connection, timeout, an error status raised by
  \<open>raise_for_status\<close>); \<open>BodyNotJson\<close> is a response whose body \<open>response.json()\<close>
  cannot decode, which \<open>requests\<close> (2.27 and later) reports as a \<open>RequestException\<close>
  too; \<open>BadEnvelope\<close> is a response without a text at \<open>choices[0].message.content\<close>;
  \<open>Content\<close> carries that text.
\<close>

datatype reply = RequestFailure | BodyNotJson | BadEnvelope | Content string

type_synonym backend = "string \<Rightarrow> nat \<Rightarrow> reply"

definition strip_fence :: "string \<Rightarrow> exn + string" where
  \<comment> \<open>\<open>response_text.split("\n", 1)[1].rsplit("\n", 1)[0]\<close>; the index 1 raises
      \<open>IndexError\<close>, handled by the caller as any other exception\<close>
  "strip_fence text =
     (case split_maxsplit1 newline text of
        [_, rest] \<Rightarrow> (case rsplit_maxsplit1 newline rest of
                        body # _ \<Rightarrow> Inr body
                      | [] \<Rightarrow> Inl IndexError)
      | _ \<Rightarrow> Inl IndexError)"

definition analyze_image_body :: "reply \<Rightarrow> world \<Rightarrow> (exn + json) \<times> world" where
  \<comment> \<open>the function under the \<open>@retry\<close> decorator: every exception is caught inside\<close>
  "analyze_image_body r w =
     (let w1 = logging SendingRequest w
      in case r of
           RequestFailure \<Rightarrow> (Inr (JObj []), logging RequestFailed w1)
         | BodyNotJson \<Rightarrow> (Inr (JObj []), logging RequestFailed (logging ResponseStatus w1))
         | BadEnvelope \<Rightarrow> (Inr (JObj []), logging UnexpectedError (logging ResponseStatus w1))
         | Content c \<Rightarrow>
             (let response_text = strip c;
                  w2 = logging (ResponseText response_text) (logging ResponseStatus w1)
              in case (if startswith ''```json'' response_text
                       then strip_fence response_text else Inr response_text) of
                   Inl e \<Rightarrow> (Inr (JObj []), logging UnexpectedError w2)
                 | Inr unfenced \<Rightarrow>
                     (let quoted = replace_char (CHR 0x27) (CHR 0x22) unfenced
                      in case json_loads quoted of
                           Inr v \<Rightarrow> (Inr v, w2)
                         | Inl JSONDecodeError \<Rightarrow>
                             (Inr (JObj []),
                              logging (DecodeFailedText quoted) (logging DecodeFailed w2))
                         | Inl _ \<Rightarrow> (Inr (JObj []), logging UnexpectedError w2))))"

text \<open>
  \<open>@retry(wait=wait_random_exponential(min=1, max=40), stop=stop_after_attempt(6))\<close>:
  call the function; when it raises, give up with \<open>RetryError\<close> once the attempt number
  has reached the stop, otherwise wait and call again. The waiting time is not modelled.
\<close>

function retry :: "nat \<Rightarrow> (nat \<Rightarrow> world \<Rightarrow> (exn + 'a) \<times> world) \<Rightarrow> nat \<Rightarrow> world
    \<Rightarrow> (exn + 'a) \<times> world" where
  "retry stop f attempt w =
     (case f attempt w of
        (Inr v, w') \<Rightarrow> (Inr v, w')
      | (Inl e, w') \<Rightarrow>
          if attempt \<ge> stop then (Inl RetryError, w')
          else retry stop f (attempt + 1) w')"
  by pat_completeness auto
termination
  by (relation "measure (\<lambda>(stop, f, attempt, w). stop - attempt)") auto

definition analyze_image :: "backend \<Rightarrow> string \<Rightarrow> world \<Rightarrow> (exn + json) \<times> world" where
  "analyze_image backend image_base64 w =
     retry 6 (\<lambda>attempt. analyze_image_body (backend image_base64 attempt)) 1 w"


section \<open>Catalog Store: \<open>insert_product_info\<close>\<close>

definition required_keys :: "string list" where
  "required_keys = [''name'', ''description'', ''category'', ''material'', ''color'',
     ''dimensions'', ''origin_source'', ''import_cost'', ''retail_price'', ''key_tags'']"

definition contains :: "json \<Rightarrow> string \<Rightarrow> exn + bool" where
  \<comment> \<open>\<open>key in product_info\<close>: a key of a dict, an element of a list, a substring of a
      string; the other values are not containers\<close>
  "contains v k =
     (case v of
        JObj ps \<Rightarrow> Inr (dict_get ps k \<noteq> None)
      | JArr xs \<Rightarrow> Inr (JStr k \<in> set xs)
      | JStr s \<Rightarrow> Inr (has_sub k s)
      | _ \<Rightarrow> Inl TypeError)"

fun check_required :: "json \<Rightarrow> string list \<Rightarrow> exn option" where
  \<comment> \<open>the loop over \<open>required_keys\<close>: the first missing key raises\<close>
  "check_required v [] = None"
| "check_required v (k # ks) =
     (case contains v k of
        Inl e \<Rightarrow> Some e
      | Inr present \<Rightarrow>
          if \<not> present then Some (KeyError (''Missing required field: '' @ k))
          else check_required v ks)"

definition getitem :: "json \<Rightarrow> string \<Rightarrow> exn + json" where
  \<comment> \<open>\<open>product_info[key]\<close> with a string key\<close>
  "getitem v k =
     (case v of
        JObj ps \<Rightarrow> (case dict_get ps k of None \<Rightarrow> Inl (KeyError k) | Some x \<Rightarrow> Inr x)
      | _ \<Rightarrow> Inl TypeError)"

fun strings_of :: "json list \<Rightarrow> string list option" where
  "strings_of [] = Some []"
| "strings_of (JStr s # xs) = (case strings_of xs of None \<Rightarrow> None | Some ss \<Rightarrow> Some (s # ss))"
| "strings_of (_ # xs) = None"

definition join_if_list :: "string \<Rightarrow> json \<Rightarrow> exn + json" where
  \<comment> \<open>\<open>sep.join(v) if isinstance(v, list) else v\<close>; joining a list with an item that is
      not a string raises \<open>TypeError\<close>\<close>
  "join_if_list sep v =
     (case v of
        JArr xs \<Rightarrow> (case strings_of xs of
                      None \<Rightarrow> Inl TypeError
                    | Some ss \<Rightarrow> Inr (JStr (join sep ss)))
      | _ \<Rightarrow> Inr v)"

datatype bind_error = Unsupported | TooLarge

definition bind_param :: "json \<Rightarrow> bind_error + sqlval" where
  \<comment> \<open>binding one statement parameter: \<open>None\<close>, numbers and text are stored, a list or a
      dict is refused with an \<open>sqlite3\<close> error, an integer outside 64 bits raises
      \<open>OverflowError\<close>\<close>
  "bind_param v =
     (case v of
        JNull \<Rightarrow> Inr SNull
      | JBool b \<Rightarrow> Inr (SInt (if b then 1 else 0))
      | JInt i \<Rightarrow> if - (2 ^ 63) \<le> i \<and> i < 2 ^ 63 then Inr (SInt i) else Inl TooLarge
      | JFloat s \<Rightarrow> Inr (SReal s)
      | JStr s \<Rightarrow> Inr (SText s)
      | JArr xs \<Rightarrow> Inl Unsupported
      | JObj ps \<Rightarrow> Inl Unsupported)"

fun bind_params :: "json list \<Rightarrow> bind_error + sqlval list" where
  \<comment> \<open>parameters are bound in order; the first that fails decides\<close>
  "bind_params [] = Inr []"
| "bind_params (v # vs) =
     (case bind_param v of
        Inl e \<Rightarrow> Inl e
      | Inr x \<Rightarrow> (case bind_params vs of Inl e \<Rightarrow> Inl e | Inr xs \<Rightarrow> Inr (x # xs)))"

datatype exec_result = Executed database | SqliteError | Raised exn

definition execute_insert :: "database \<Rightarrow> json list \<Rightarrow> exec_result" where
  \<comment> \<open>\<open>cursor.execute('INSERT INTO products (...) VALUES (?, ..., ?)', params)\<close>: the
      row gets the next identifier; \<open>image_url\<close> is \<open>UNIQUE\<close>. A row holds the values as
      they are bound. The conversions of SQLite's column affinity are not modelled: a
      number bound to a \<open>TEXT\<close> column is kept as the number, an integer bound to a
      \<open>REAL\<close> column as the integer, a \<open>NaN\<close> as the float. Text bound to a \<open>TEXT\<close>
      column, as \<open>image_url\<close> always is, is stored as it is.\<close>
  "execute_insert d params =
     (case bind_params params of
        Inl Unsupported \<Rightarrow> SqliteError
      | Inl TooLarge \<Rightarrow> Raised OverflowError
      | Inr [n, de, u, ca, m, co, di, os, ic, rp, kt] \<Rightarrow>
          if u \<noteq> SNull \<and> u \<in> image_url ` set (rows d) then SqliteError
          else Executed \<lparr>rows = rows d @ [\<lparr>row_id = seq d + 1, name = n, description = de,
                 image_url = u, category = ca, material = m, color = co, dimensions = di,
                 origin_source = os, import_cost = ic, retail_price = rp, key_tags = kt\<rparr>],
               seq = seq d + 1\<rparr>
      | Inr _ \<Rightarrow> SqliteError)"

definition insert_product_info :: "world \<Rightarrow> json \<Rightarrow> string \<Rightarrow> exn option \<times> world" where
  \<comment> \<open>the result is the exception raised, if any, and the world afterwards\<close>
  "insert_product_info w product_info img_path =
     (case check_required product_info required_keys of
        Some e \<Rightarrow> (Some e, w)
      | None \<Rightarrow>
     (case getitem product_info ''description'' of Inl e \<Rightarrow> (Some e, w) | Inr d0 \<Rightarrow>
     (case join_if_list [newline] d0 of Inl e \<Rightarrow> (Some e, w) | Inr description' \<Rightarrow>
     (case getitem product_info ''key_tags'' of Inl e \<Rightarrow> (Some e, w) | Inr k0 \<Rightarrow>
     (case join_if_list '', '' k0 of Inl e \<Rightarrow> (Some e, w) | Inr key_tags' \<Rightarrow>
     (case getitem product_info ''name'' of Inl e \<Rightarrow> (Some e, w) | Inr name' \<Rightarrow>
     (case getitem product_info ''category'' of Inl e \<Rightarrow> (Some e, w) | Inr category' \<Rightarrow>
     (case getitem product_info ''material'' of Inl e \<Rightarrow> (Some e, w) | Inr material' \<Rightarrow>
     (case getitem product_info ''color'' of Inl e \<Rightarrow> (Some e, w) | Inr color' \<Rightarrow>
     (case getitem product_info ''dimensions'' of Inl e \<Rightarrow> (Some e, w) | Inr dimensions' \<Rightarrow>
     (case getitem product_info ''origin_source'' of Inl e \<Rightarrow> (Some e, w) | Inr origin' \<Rightarrow>
     (case getitem product_info ''import_cost'' of Inl e \<Rightarrow> (Some e, w) | Inr import' \<Rightarrow>
     (case getitem product_info ''retail_price'' of Inl e \<Rightarrow> (Some e, w) | Inr retail' \<Rightarrow>
     (case execute_insert (db w)
             [name', description', JStr img_path, category', material', color',
              dimensions', origin', import', retail', key_tags'] of
        Executed d \<Rightarrow> (None, logging (InsertedProductInfo img_path) (w\<lparr>db := d\<rparr>))
      | SqliteError \<Rightarrow> (None, logging InsertFailed w)
      | Raised e \<Rightarrow> (Some e, w)))))))))))))))"

section \<open>Ingestion Pipeline: \<open>process_uploaded_images\<close>\<close>

record datetime =
  year :: nat
  month :: nat
  day :: nat
  hour :: nat
  minute :: nat
  second :: nat

definition digit :: "nat \<Rightarrow> char" where
  "digit n = char_of (48 + n mod 10)"

definition strftime :: "datetime \<Rightarrow> string" where
  \<comment> \<open>\<open>now.strftime("%Y%m%d-%H%M%S")\<close>, for a year of four digits\<close>
  "strftime t =
     [digit (year t div 1000), digit (year t div 100), digit (year t div 10), digit (year t),
      digit (month t div 10), digit (month t), digit (day t div 10), digit (day t), CHR ''-'',
      digit (hour t div 10), digit (hour t), digit (minute t div 10), digit (minute t),
      digit (second t div 10), digit (second t)]"

definition is_image_name :: "string \<Rightarrow> bool" where
  \<comment> \<open>\<open>filename.lower().endswith(('.png', '.jpg', '.jpeg', '.gif', '.webp'))\<close>\<close>
  "is_image_name filename =
     (let l = lower filename
      in endswith ''.png'' l \<or> endswith ''.jpg'' l \<or> endswith ''.jpeg'' l
         \<or> endswith ''.gif'' l \<or> endswith ''.webp'' l)"

text \<open>
  The upload tree as \<open>os.walk\<close> enumerates it: the directories in the order they are
  visited, each as its path relative to the upload root (\<open>.\<close> for the root itself, what
  \<open>os.path.relpath(root, UPLOADS_DIR)\<close> returns), with the file names in the order they
  are listed. \<open>os_walk\<close> lists the names the file system has at the start of the run,
  dangling links included; the loop only ever moves a file out of the directory it is
  visiting, so no later listing changes.
\<close>

type_synonym tree = "(string \<times> string list) list"

definition root_of :: "string \<Rightarrow> string" where
  "root_of rel = (if rel = ''.'' then UPLOADS_DIR else path_join UPLOADS_DIR rel)"

definition os_walk :: "tree \<Rightarrow> world \<Rightarrow> tree" where
  "os_walk scan w =
     map (\<lambda>(rel, names).
            (rel, filter (\<lambda>n. files w (path_join (root_of rel) n) \<noteq> None) names)) scan"

definition move :: "world \<Rightarrow> string \<Rightarrow> string \<Rightarrow> exn option \<times> world" where
  \<comment> \<open>\<open>shutil.move(src, dst)\<close> of a file onto a file path\<close>
  "move w src dst =
     (case files w src of
        None \<Rightarrow> (Some OSError, w)
      | Some f \<Rightarrow> (None, w\<lparr>files := (files w)(src := None, dst \<mapsto> f)\<rparr>))"

definition new_image_path_of :: "string \<Rightarrow> string \<Rightarrow> string \<Rightarrow> string" where
  \<comment> \<open>the destination: lines 220 to 225\<close>
  "new_image_path_of batch_dir rel filename =
     (let relative_path = (if rel = ''.'' then [] else rel);
          new_image_dir = path_join batch_dir relative_path
      in path_join new_image_dir filename)"

text \<open>
  \<open>existing_images\<close> is a local variable of \<open>process_uploaded_images\<close> that the loops
  read. It is part of the state the loops carry: every step returns it with the world, so
  that what the run does to it is a property of the loops.
\<close>

definition process_file ::
  "backend \<Rightarrow> sqlval set \<Rightarrow> string \<Rightarrow> string \<Rightarrow> string \<Rightarrow> world
     \<Rightarrow> exn option \<times> sqlval set \<times> world" where
  \<comment> \<open>the body of the inner loop, for one file name of one directory\<close>
  "process_file backend existing_images batch_dir rel filename w0 =
     (let w1 = logging (FoundFile filename) w0
      in if is_image_name filename then
           (let image_path = path_join (root_of rel) filename;
                w2 = logging (ProcessingImage image_path) w1;
                (encoded_image, w3) = encode_image_to_base64 w2 image_path
            in case encoded_image of
                 None \<Rightarrow> (None, existing_images, logging (CouldNotEncode filename) w3)
               | Some enc \<Rightarrow>
                   if enc = [] then (None, existing_images, logging (CouldNotEncode filename) w3)
                   else
                     (let new_image_path = new_image_path_of batch_dir rel filename
                      in if SText new_image_path \<notin> existing_images then
                           (case analyze_image backend enc w3 of
                              (Inl e, w4) \<Rightarrow> (Some e, existing_images, w4)
                            | (Inr product_info, w4) \<Rightarrow>
                                if truthy product_info then
                                  (case move w4 image_path new_image_path of
                                     (Some e, w5) \<Rightarrow> (Some e, existing_images, w5)
                                   | (None, w5) \<Rightarrow>
                                       (case insert_product_info w5 product_info new_image_path of
                                          (None, w6) \<Rightarrow>
                                            (None, existing_images,
                                             logging (ProcessedOk filename) w6)
                                        | (Some (KeyError m), w6) \<Rightarrow>
                                            (None, existing_images,
                                             logging (ErrorInserting filename m) w6)
                                        | (Some e, w6) \<Rightarrow> (Some e, existing_images, w6)))
                                else (None, existing_images,
                                      logging (FailedToAnalyze filename) w4))
                         else (None, existing_images, logging (AlreadyExists filename) w3)))
         else (None, existing_images, w1))"

fun process_files ::
  "backend \<Rightarrow> sqlval set \<Rightarrow> string \<Rightarrow> string \<Rightarrow> string list \<Rightarrow> world
     \<Rightarrow> exn option \<times> sqlval set \<times> world" where
  \<comment> \<open>\<open>for filename in files\<close>; an exception that escapes ends the loop\<close>
  "process_files backend existing_images batch_dir rel [] w = (None, existing_images, w)"
| "process_files backend existing_images batch_dir rel (filename # rest) w =
     (case process_file backend existing_images batch_dir rel filename w of
        (Some e, existing_images', w') \<Rightarrow> (Some e, existing_images', w')
      | (None, existing_images', w') \<Rightarrow>
          process_files backend existing_images' batch_dir rel rest w')"

fun process_dirs ::
  "backend \<Rightarrow> sqlval set \<Rightarrow> string \<Rightarrow> tree \<Rightarrow> world
     \<Rightarrow> exn option \<times> sqlval set \<times> world" where
  \<comment> \<open>\<open>for root, dirs, files in os.walk(UPLOADS_DIR)\<close>\<close>
  "process_dirs backend existing_images batch_dir [] w = (None, existing_images, w)"
| "process_dirs backend existing_images batch_dir ((rel, names) # rest) w =
     (case process_files backend existing_images batch_dir rel names
             (logging (Traversing (root_of rel)) w) of
        (Some e, existing_images', w') \<Rightarrow> (Some e, existing_images', w')
      | (None, existing_images', w') \<Rightarrow>
          process_dirs backend existing_images' batch_dir rest w')"

text \<open>
  The function returns nothing; what it leaves behind is the world. The result of the
  model is the exception that ended the run, if any, the world, and the value the local
  variable \<open>existing_images\<close> has when the loops are left.
\<close>

record run_result =
  raised :: "exn option"
  existing_images_at_end :: "sqlval set"
  final :: world

definition select_image_urls :: "world \<Rightarrow> sqlval set" where
  \<comment> \<open>\<open>set(row[0] for row in cursor.fetchall())\<close> after \<open>SELECT image_url FROM products\<close>\<close>
  "select_image_urls w = image_url ` set (rows (db w))"

definition process_uploaded_images :: "tree \<Rightarrow> datetime \<Rightarrow> backend \<Rightarrow> world \<Rightarrow> run_result" where
  \<comment> \<open>the connection's \<open>with\<close> block commits when the loop ends and rolls the inserts
      back when an exception leaves it\<close>
  "process_uploaded_images scan now backend w =
     (let w1 = logging StartProcessing w;
          existing_images = select_image_urls w1;
          timestamp = strftime now;
          batch_dir = path_join INVENTORY_IMAGES_DIR timestamp;
          w2 = logging (CreatedBatchDir batch_dir) w1
      in case process_dirs backend existing_images batch_dir (os_walk scan w2) w2 of
           (None, existing_images', w3) \<Rightarrow>
             \<lparr>raised = None, existing_images_at_end = existing_images',
              final = logging (Finished batch_dir) w3\<rparr>
         | (Some e, existing_images', w3) \<Rightarrow>
             \<lparr>raised = Some e, existing_images_at_end = existing_images',
              final = w3\<lparr>db := db w\<rparr>\<rparr>)"


section \<open>Well-formed listings\<close>

text \<open>
  What every listing of \<open>os.walk\<close> satisfies: a file name is not empty and has no
  \<open>/\<close>; a relative directory path is not empty and neither starts nor ends with \<open>/\<close>.
\<close>

definition valid_name :: "string \<Rightarrow> bool" where
  "valid_name n = (n \<noteq> [] \<and> CHR ''/'' \<notin> set n)"

definition valid_rel :: "string \<Rightarrow> bool" where
  "valid_rel rel = (rel \<noteq> [] \<and> hd rel \<noteq> CHR ''/'' \<and> last rel \<noteq> CHR ''/'')"

definition rel_prefix :: "string \<Rightarrow> string" where
  "rel_prefix rel = (if rel = ''.'' then [] else rel @ ''/'')"


text \<open>How many catalog records carry an image reference.\<close>

definition count_ref :: "string \<Rightarrow> world \<Rightarrow> nat" where
  "count_ref ref w = length (filter (\<lambda>r. image_url r = SText ref) (rows (db w)))"

section \<open>Records the catalog can store\<close>






section \<open>Concrete worlds\<close>

text \<open>
  Inputs on which the theorems below are evaluated: an upload tree with one photo at the
  top, one with the same file name in two subdirectories, three clock readings, and
  extractor answers.
\<close>

definition empty_db :: database where
  "empty_db = \<lparr>rows = [], seq = 0\<rparr>"

definition noon :: datetime where
  "noon = \<lparr>year = 2024, month = 1, day = 2, hour = 12, minute = 0, second = 0\<rparr>"

definition later :: datetime where
  "later = \<lparr>year = 2024, month = 1, day = 2, hour = 12, minute = 0, second = 1\<rparr>"

definition evening :: datetime where
  "evening = \<lparr>year = 2024, month = 1, day = 2, hour = 18, minute = 0, second = 0\<rparr>"

definition top_dir :: tree where
  "top_dir = [(''.'', [''photo.jpg''])]"


definition one_photo :: world where
  "one_photo = \<lparr>files = [''data/images/uploads/photo.jpg'' \<mapsto> Bytes ''x''],
                db = empty_db, log = []\<rparr>"


definition answers :: "string \<Rightarrow> backend" where
  \<comment> \<open>a service that answers every request with the same text\<close>
  "answers text enc attempt = Content text"

definition full_record :: string where
  \<open>full_record = ''{"name":"n","description":["a","b"],"category":"c","material":"m","color":"r","dimensions":"d","origin_source":"o","import_cost":null,"retail_price":12.5,"key_tags":["k","l"]}''\<close>

definition full_record_value :: "(string \<times> json) list" where
  "full_record_value = [(''name'', JStr ''n''), (''description'', JArr [JStr ''a'', JStr ''b'']),
     (''category'', JStr ''c''), (''material'', JStr ''m''), (''color'', JStr ''r''),
     (''dimensions'', JStr ''d''), (''origin_source'', JStr ''o''), (''import_cost'', JNull),
     (''retail_price'', JFloat ''12.5''), (''key_tags'', JArr [JStr ''k'', JStr ''l''])]"

definition full_row :: "int \<Rightarrow> string \<Rightarrow> product_row" where
  \<comment> \<open>the row \<open>full_record\<close> is stored as\<close>
  "full_row i ref = \<lparr>row_id = i, name = SText ''n'',
     description = SText [CHR ''a'', newline, CHR ''b''], image_url = SText ref,
     category = SText ''c'', material = SText ''m'', color = SText ''r'',
     dimensions = SText ''d'', origin_source = SText ''o'', import_cost = SNull,
     retail_price = SReal ''12.5'', key_tags = SText ''k, l''\<rparr>"

definition flaky_backend :: backend where
  \<comment> \<open>fails on attempts 1 to 5 and answers a full record on attempt 6\<close>
  "flaky_backend enc attempt = (if attempt < 6 then RequestFailure else Content full_record)"

definition listed_colors :: string where
  \<comment> \<open>all ten fields, with the colours given as a list\<close>
  \<open>listed_colors = ''{"name":"n","description":"d","category":"c","material":"m","color":["r","s"],"dimensions":"d","origin_source":"o","import_cost":1,"retail_price":2,"key_tags":"k"}''\<close>

definition listed_colors_value :: "(string \<times> json) list" where
  "listed_colors_value = [(''name'', JStr ''n''), (''description'', JStr ''d''),
     (''category'', JStr ''c''), (''material'', JStr ''m''),
     (''color'', JArr [JStr ''r'', JStr ''s'']),
     (''dimensions'', JStr ''d''), (''origin_source'', JStr ''o''), (''import_cost'', JInt 1),
     (''retail_price'', JInt 2), (''key_tags'', JStr ''k'')]"

definition nine_fields :: string where
  \<comment> \<open>a record without \<open>key_tags\<close>\<close>
  \<open>nine_fields = ''{"name":"n","description":"d","category":"c","material":"m","color":"r","dimensions":"d","origin_source":"o","import_cost":1,"retail_price":2}''\<close>

definition nine_fields_value :: "(string \<times> json) list" where
  "nine_fields_value = [(''name'', JStr ''n''), (''description'', JStr ''d''),
     (''category'', JStr ''c''), (''material'', JStr ''m''), (''color'', JStr ''r''),
     (''dimensions'', JStr ''d''), (''origin_source'', JStr ''o''), (''import_cost'', JInt 1),
     (''retail_price'', JInt 2)]"

definition single_quoted :: string where
  \<comment> \<open>a record with single-quoted keys and values\<close>
  \<open>single_quoted = ''{'name':'n','description':['a','b'],'category':'c','material':'m','color':'r','dimensions':'d','origin_source':'o','import_cost':null,'retail_price':12.5,'key_tags':['k','l']}''\<close>

definition json_fenced :: string where
  \<comment> \<open>the record in a fenced code block tagged \<open>json\<close>\<close>
  "json_fenced = ''```json'' @ [newline] @ single_quoted @ [newline] @ ''```''"

definition plain_fenced :: string where
  \<comment> \<open>the record in a fenced code block without a tag\<close>
  "plain_fenced = ''```'' @ [newline] @ single_quoted @ [newline] @ ''```''"

definition recorded_db :: database where
  \<comment> \<open>the catalog after the run at \<open>noon\<close> over \<open>one_photo\<close>\<close>
  "recorded_db = \<lparr>rows = [full_row 1 ''data/images/inventory/20240102-120000/photo.jpg''],
                  seq = 1\<rparr>"

definition reuploaded :: world where
  \<comment> \<open>the photo is in the upload root again, its record of the earlier run in the catalog\<close>
  "reuploaded = \<lparr>files = [''data/images/uploads/photo.jpg'' \<mapsto> Bytes ''x'',
                     ''data/images/inventory/20240102-120000/photo.jpg'' \<mapsto> Bytes ''x''],
                 db = recorded_db, log = []\<rparr>"

definition unreadable_recorded :: world where
  \<comment> \<open>an unreadable photo whose destination at \<open>noon\<close> is already recorded\<close>
  "unreadable_recorded = \<lparr>files = [''data/images/uploads/photo.jpg'' \<mapsto> Unreadable],
                          db = recorded_db, log = []\<rparr>"

definition notes_only :: world where
  \<comment> \<open>an upload root that holds no image\<close>
  "notes_only = \<lparr>files = [''data/images/uploads/notes.txt'' \<mapsto> Bytes ''x''],
                 db = recorded_db, log = []\<rparr>"

section \<open>Auxiliary facts\<close>



lemma split_on_not_Nil: "split_on sep s \<noteq> []"
  by (induction sep s rule: split_on.induct) (auto simp: Let_def)

lemma split_on_no_sep: "sep \<noteq> [] \<Longrightarrow> \<not> has_sub sep x \<Longrightarrow> split_on sep x = [x]"
  by (induction x) (auto simp: Let_def)

lemma startswith_Cons: "startswith (a # p) (c # s) = (a = c \<and> startswith p s)"
  by (auto simp: startswith_def)

lemma startswith_Nil: "startswith [] s"
  by (simp add: startswith_def)

lemma startswith_Cons_Nil: "\<not> startswith (a # p) []"
  by (simp add: startswith_def)

lemma split_on_cut_newline:
  "\<not> has_sub [newline] x \<Longrightarrow> split_on [newline] (x @ newline # rest) = x # split_on [newline] rest"
  by (induction x) (auto simp: Let_def startswith_Cons startswith_Nil)

lemma split_on_cut_comma:
  "\<not> has_sub '', '' x \<Longrightarrow> split_on '', '' (x @ CHR '','' # CHR '' '' # rest) = x # split_on '', '' rest"
proof (induction x)
  case Nil
  show ?case by (simp add: startswith_Cons startswith_Nil)
next
  case (Cons c x)
  have no: "\<not> startswith '', '' (c # x @ CHR '','' # CHR '' '' # rest)"
    using Cons.prems by (cases x) (auto simp: startswith_Cons startswith_Nil)
  from Cons show ?case using no by (simp add: Let_def)
qed

lemma split_on_join_gen:
  assumes "sep \<noteq> []"
    and cut: "\<And>x rest. \<not> has_sub sep x \<Longrightarrow> split_on sep (x @ sep @ rest) = x # split_on sep rest"
  shows "xs \<noteq> [] \<Longrightarrow> list_all (\<lambda>x. \<not> has_sub sep x) xs \<Longrightarrow> split_on sep (join sep xs) = xs"
proof (induction xs rule: induct_list012)
  case 1
  then show ?case by simp
next
  case (2 x)
  then show ?case using assms(1) by (simp add: split_on_no_sep)
next
  case (3 x y zs)
  then show ?case by (simp add: cut)
qed

lemma split_on_join_newline:
  "xs \<noteq> [] \<Longrightarrow> list_all (\<lambda>x. \<not> has_sub [newline] x) xs \<Longrightarrow> split_on [newline] (join [newline] xs) = xs"
  by (rule split_on_join_gen) (simp_all add: split_on_cut_newline)

lemma split_on_join_comma:
  "xs \<noteq> [] \<Longrightarrow> list_all (\<lambda>x. \<not> has_sub '', '' x) xs \<Longrightarrow> split_on '', '' (join '', '' xs) = xs"
  by (rule split_on_join_gen) (simp_all add: split_on_cut_comma)

lemma strings_of_map_JStr: "strings_of (map JStr xs) = Some xs"
  by (induction xs) auto

lemma check_required_missing:
  "k \<in> set ks \<Longrightarrow> dict_get ps k = None \<Longrightarrow>
   \<exists>k'. k' \<in> set ks \<and> dict_get ps k' = None
      \<and> check_required (JObj ps) ks = Some (KeyError (''Missing required field: '' @ k'))"
  by (induction ks) (auto simp: contains_def)

lemma check_required_present:
  "check_required (JObj ps) ks = None \<longleftrightarrow> list_all (\<lambda>k. dict_get ps k \<noteq> None) ks"
  by (induction ks) (auto simp: contains_def)

lemma retry_no_raise:
  "f attempt w = (Inr v, w') \<Longrightarrow> retry stop f attempt w = (Inr v, w')"
  by (subst retry.simps) simp

lemma analyze_image_body_returns: "\<exists>v w'. analyze_image_body r w = (Inr v, w')"
  by (auto simp: analyze_image_body_def Let_def split: reply.splits sum.splits decode_error.splits)

lemma analyze_image_first_attempt:
  "analyze_image backend enc w = analyze_image_body (backend enc 1) w"
proof -
  obtain v w' where "analyze_image_body (backend enc 1) w = (Inr v, w')"
    using analyze_image_body_returns by blast
  then show ?thesis by (simp add: analyze_image_def retry_no_raise)
qed


lemma insert_missing:
  assumes "k \<in> set required_keys" and "dict_get ps k = None"
  shows "\<exists>k'. k' \<in> set required_keys \<and> dict_get ps k' = None
           \<and> insert_product_info w (JObj ps) img_path
               = (Some (KeyError (''Missing required field: '' @ k')), w)"
proof -
  obtain k' where "k' \<in> set required_keys" "dict_get ps k' = None"
    "check_required (JObj ps) required_keys = Some (KeyError (''Missing required field: '' @ k'))"
    using check_required_missing [OF assms] by blast
  then show ?thesis by (auto simp: insert_product_info_def)
qed


lemma dropWhile_cut: "sep \<notin> set a \<Longrightarrow> dropWhile (\<lambda>c. c \<noteq> sep) (a @ sep # b) = sep # b"
  by (induction a) auto

lemma takeWhile_cut: "sep \<notin> set a \<Longrightarrow> takeWhile (\<lambda>c. c \<noteq> sep) (a @ sep # b) = a"
  by (induction a) auto

lemma split_maxsplit1_cut:
  "sep \<notin> set a \<Longrightarrow> split_maxsplit1 sep (a @ sep # b) = [a, b]"
  by (simp add: split_maxsplit1_def dropWhile_cut takeWhile_cut)

lemma rsplit_maxsplit1_cut:
  "sep \<notin> set b \<Longrightarrow> rsplit_maxsplit1 sep (a @ sep # b) = [a, b]"
proof -
  assume h: "sep \<notin> set b"
  have r: "rev (a @ sep # b) = rev b @ sep # rev a" by simp
  show ?thesis
    unfolding rsplit_maxsplit1_def r using h
    by (simp add: dropWhile_cut takeWhile_cut)
qed

lemma strip_fence_cut:
  "newline \<notin> set info \<Longrightarrow> newline \<notin> set closing \<Longrightarrow>
   strip_fence (info @ newline # body @ newline # closing) = Inr body"
  by (simp add: strip_fence_def split_maxsplit1_cut rsplit_maxsplit1_cut)

lemma fenced_parsed:
  assumes "backend enc 1 = Content c"
    and "strip c = ''```json'' @ info @ newline # body @ newline # closing"
    and "newline \<notin> set info" and "newline \<notin> set closing"
    and "json_loads (replace_char (CHR 0x27) (CHR 0x22) body) = Inr v"
  shows "fst (analyze_image backend enc w) = Inr v"
proof -
  have nl: "newline \<notin> set (''```json'' @ info)"
    using assms(3) by (simp add: newline_def)
  have sf: "strip_fence (strip c) = Inr body"
    using strip_fence_cut [OF nl assms(4), of body] assms(2) by simp
  have sw: "startswith ''```json'' (strip c)"
    using assms(2) by (simp add: startswith_def)
  show ?thesis
    using assms(1) assms(5) sw sf
    by (simp add: analyze_image_first_attempt analyze_image_body_def Let_def)
qed



lemma UPLOADS_DIR_eq: "UPLOADS_DIR = ''data/images/uploads''"
  by (simp add: UPLOADS_DIR_def DATA_DIR_def path_join_def startswith_def endswith_def)

lemma INVENTORY_IMAGES_DIR_eq: "INVENTORY_IMAGES_DIR = ''data/images/inventory''"
  by (simp add: INVENTORY_IMAGES_DIR_def DATA_DIR_def path_join_def startswith_def endswith_def)

lemma digit_not_slash: "digit n \<noteq> CHR ''/''"
proof
  assume "digit n = CHR ''/''"
  then have "(of_char (digit n) :: nat) = of_char (CHR ''/'')" by simp
  then show False by (simp add: digit_def)
qed

lemma startswith_slash: "startswith ''/'' s = (s \<noteq> [] \<and> hd s = CHR ''/'')"
  by (cases s) (auto simp: startswith_def)

lemma endswith_slash: "endswith ''/'' s = (s \<noteq> [] \<and> last s = CHR ''/'')"
proof (cases s rule: rev_cases)
  case Nil
  then show ?thesis by (simp add: endswith_def)
next
  case (snoc ys y)
  then show ?thesis by (auto simp: endswith_def)
qed

lemma hd_not_in: "n \<noteq> [] \<Longrightarrow> c \<notin> set n \<Longrightarrow> hd n \<noteq> c"
  by (cases n) auto

lemma src_normal:
  assumes "valid_rel rel" "valid_name n"
  shows "path_join (root_of rel) n = ''data/images/uploads/'' @ rel_prefix rel @ n"
proof -
  have n: "\<not> startswith ''/'' n"
    using assms(2) hd_not_in [of n "CHR ''/''"] by (auto simp: startswith_slash valid_name_def)
  have r: "\<not> startswith ''/'' rel" "\<not> endswith ''/'' rel" "rel \<noteq> []"
    using assms(1) by (auto simp: startswith_slash endswith_slash valid_rel_def)
  have root: "root_of rel = (if rel = ''.'' then ''data/images/uploads'' else ''data/images/uploads/'' @ rel)"
    using r by (simp add: root_of_def UPLOADS_DIR_eq path_join_def endswith_def)
  have e: "\<not> endswith ''/'' (root_of rel)"
    using r(2,3) by (simp add: root endswith_slash)
  have ne: "root_of rel \<noteq> []" by (simp add: root)
  show ?thesis
    unfolding path_join_def using n e ne by (simp add: root rel_prefix_def)
qed

lemma strftime_facts:
  "strftime t \<noteq> []" "hd (strftime t) \<noteq> CHR ''/''" "last (strftime t) \<noteq> CHR ''/''"
  by (simp_all add: strftime_def digit_not_slash)

lemma batch_normal:
  "path_join INVENTORY_IMAGES_DIR (strftime t) = ''data/images/inventory/'' @ strftime t"
  using strftime_facts [of t]
  by (simp add: INVENTORY_IMAGES_DIR_eq path_join_def startswith_slash endswith_def)

lemma dest_normal:
  assumes "valid_rel rel" "valid_name n" "batch \<noteq> []" "last batch \<noteq> CHR ''/''"
  shows "new_image_path_of batch rel n = batch @ ''/'' @ rel_prefix rel @ n"
proof -
  have n: "\<not> startswith ''/'' n"
    using assms(2) hd_not_in [of n "CHR ''/''"] by (auto simp: startswith_slash valid_name_def)
  have r: "\<not> startswith ''/'' rel" "\<not> endswith ''/'' rel" "rel \<noteq> []"
    using assms(1) by (auto simp: startswith_slash endswith_slash valid_rel_def)
  have b: "\<not> endswith ''/'' batch" using assms(3,4) by (simp add: endswith_slash)
  have d: "path_join batch (if rel = ''.'' then [] else rel) = batch @ ''/'' @ (if rel = ''.'' then [] else rel)"
    using r(1) b assms(3) by (simp add: path_join_def startswith_def)
  have e: "endswith ''/'' (batch @ ''/'' @ (if rel = ''.'' then [] else rel)) = (rel = ''.'')"
    using r(2,3) by (simp add: endswith_slash)
  show ?thesis
    unfolding new_image_path_of_def Let_def d
    unfolding path_join_def using n e by (simp add: rel_prefix_def)
qed






lemma src_not_dest:
  assumes "valid_rel rel" "valid_name n" "valid_rel rel'" "valid_name n'"
  shows "path_join (root_of rel) n
           \<noteq> new_image_path_of (path_join INVENTORY_IMAGES_DIR (strftime t)) rel' n'"
proof -
  have "new_image_path_of (path_join INVENTORY_IMAGES_DIR (strftime t)) rel' n'
      = (''data/images/inventory/'' @ strftime t) @ ''/'' @ rel_prefix rel' @ n'"
    unfolding batch_normal using strftime_facts [of t] assms(3,4)
    by (intro dest_normal) simp_all
  then show ?thesis using assms(1,2) by (simp add: src_normal)
qed

lemma analyze_image_body_frame:
  "analyze_image_body r w = (x, w') \<Longrightarrow> files w' = files w \<and> db w' = db w"
  by (auto simp: analyze_image_body_def Let_def logging_def
           split: reply.splits sum.splits decode_error.splits if_splits)

lemma analyze_image_body_indep:
  "fst (analyze_image_body r w) = fst (analyze_image_body r w')"
  by (auto simp: analyze_image_body_def Let_def split: reply.splits sum.splits decode_error.splits)

lemma analyze_image_result:
  assumes "fst (analyze_image backend enc w0) = Inr v"
  shows "\<exists>w'. analyze_image backend enc w = (Inr v, w') \<and> files w' = files w \<and> db w' = db w"
proof -
  have "fst (analyze_image backend enc w) = Inr v"
    using assms analyze_image_body_indep [of "backend enc 1" w w0]
    by (simp add: analyze_image_first_attempt)
  then obtain w' where e: "analyze_image backend enc w = (Inr v, w')"
    by (cases "analyze_image backend enc w") simp
  then have "files w' = files w \<and> db w' = db w"
    using analyze_image_body_frame [of "backend enc 1" w "Inr v" w']
    by (simp add: analyze_image_first_attempt)
  with e show ?thesis by blast
qed

lemma logging_frame [simp]: "files (logging e w) = files w" "db (logging e w) = db w"
  by (simp_all add: logging_def)




















lemma b64encode_nonempty: "data \<noteq> [] \<Longrightarrow> b64encode data \<noteq> []"
  by (induction data rule: b64encode.induct) (auto simp: Let_def)



lemma count_ref_logging [simp]: "count_ref ref (logging e w) = count_ref ref w"
  by (simp add: count_ref_def)











subsection \<open>Evaluating the concrete inputs\<close>

lemma b64encode_x: "b64encode ''x'' = ''eA==''"
  by (simp add: b64_char_def b64_alphabet_def)

lemma b64encode_y: "b64encode ''y'' = ''eQ==''"
  by (simp add: b64_char_def b64_alphabet_def)

lemma is_image_name_photo: "is_image_name ''photo.jpg''"
  by code_simp

lemma not_image_name_notes: "\<not> is_image_name ''notes.txt''"
  by code_simp

lemma json_loads_full_record: "json_loads full_record = Inr (JObj full_record_value)"
  by code_simp


lemma json_loads_nine_fields: "json_loads nine_fields = Inr (JObj nine_fields_value)"
  by code_simp

lemma json_loads_empty_object: \<open>json_loads ''{}'' = Inr (JObj [])\<close>
  by code_simp

lemma single_quoted_repaired: "replace_char (CHR 0x27) (CHR 0x22) single_quoted = full_record"
  by code_simp

lemma plain_fenced_rejected:
  "json_loads (replace_char (CHR 0x27) (CHR 0x22) plain_fenced) = Inl JSONDecodeError"
  by code_simp

lemma text_facts:
  "strip full_record = full_record" "\<not> startswith ''```json'' full_record"
  "replace_char (CHR 0x27) (CHR 0x22) full_record = full_record"
  "strip listed_colors = listed_colors" "\<not> startswith ''```json'' listed_colors"
  "replace_char (CHR 0x27) (CHR 0x22) listed_colors = listed_colors"
  "strip nine_fields = nine_fields" "\<not> startswith ''```json'' nine_fields"
  "replace_char (CHR 0x27) (CHR 0x22) nine_fields = nine_fields"
  "strip plain_fenced = plain_fenced" "\<not> startswith ''```json'' plain_fenced"
  "strip json_fenced = json_fenced"
  by code_simp+

lemma analyze_image_body_plain:
  assumes "strip c = t" "\<not> startswith ''```json'' t"
    and "json_loads (replace_char (CHR 0x27) (CHR 0x22) t) = Inr v"
  shows "analyze_image_body (Content c) w
       = (Inr v, logging (ResponseText t) (logging ResponseStatus (logging SendingRequest w)))"
  using assms by (simp add: analyze_image_body_def Let_def)



lemma analyze_answers_nine:
  "analyze_image (answers nine_fields) enc w
     = (Inr (JObj nine_fields_value),
        logging (ResponseText nine_fields) (logging ResponseStatus (logging SendingRequest w)))"
  by (simp add: analyze_image_first_attempt answers_def analyze_image_body_plain text_facts
        json_loads_nine_fields)

lemma insert_full_record:
  "insert_product_info w (JObj full_record_value) p =
   (if SText p \<in> image_url ` set (rows (db w)) then (None, logging InsertFailed w)
    else (None, logging (InsertedProductInfo p)
            (w\<lparr>db := \<lparr>rows = rows (db w) @ [full_row (seq (db w) + 1) p],
                      seq = seq (db w) + 1\<rparr>\<rparr>)))"
  by (simp add: insert_product_info_def full_record_value_def required_keys_def contains_def
        getitem_def join_if_list_def execute_insert_def bind_param_def full_row_def)


lemma insert_nine_fields:
  "insert_product_info w (JObj nine_fields_value) p
     = (Some (KeyError ''Missing required field: key_tags''), w)"
  by (simp add: insert_product_info_def nine_fields_value_def required_keys_def contains_def)

lemma example_paths:
  "path_join INVENTORY_IMAGES_DIR (strftime noon) = ''data/images/inventory/20240102-120000''"
  "path_join INVENTORY_IMAGES_DIR (strftime later) = ''data/images/inventory/20240102-120001''"
  "path_join INVENTORY_IMAGES_DIR (strftime evening) = ''data/images/inventory/20240102-180000''"
  "root_of ''.'' = ''data/images/uploads''"
  "root_of ''a'' = ''data/images/uploads/a''"
  "root_of ''b'' = ''data/images/uploads/b''"
  "path_join ''data/images/uploads'' ''photo.jpg'' = ''data/images/uploads/photo.jpg''"
  "path_join ''data/images/uploads'' ''notes.txt'' = ''data/images/uploads/notes.txt''"
  "path_join ''data/images/uploads/a'' ''photo.jpg'' = ''data/images/uploads/a/photo.jpg''"
  "path_join ''data/images/uploads/b'' ''photo.jpg'' = ''data/images/uploads/b/photo.jpg''"
  "new_image_path_of ''data/images/inventory/20240102-120000'' ''.'' ''photo.jpg''
     = ''data/images/inventory/20240102-120000/photo.jpg''"
  "new_image_path_of ''data/images/inventory/20240102-120001'' ''.'' ''photo.jpg''
     = ''data/images/inventory/20240102-120001/photo.jpg''"
  "new_image_path_of ''data/images/inventory/20240102-180000'' ''.'' ''photo.jpg''
     = ''data/images/inventory/20240102-180000/photo.jpg''"
  "new_image_path_of ''data/images/inventory/20240102-120000'' ''a'' ''photo.jpg''
     = ''data/images/inventory/20240102-120000/a/photo.jpg''"
  "new_image_path_of ''data/images/inventory/20240102-120000'' ''b'' ''photo.jpg''
     = ''data/images/inventory/20240102-120000/b/photo.jpg''"
  by code_simp+

lemma example_truthy:
  "full_record_value \<noteq> []" "listed_colors_value \<noteq> []" "nine_fields_value \<noteq> []"
  by (simp_all add: full_record_value_def listed_colors_value_def nine_fields_value_def)

lemmas run_defs = example_truthy process_uploaded_images_def Let_def example_paths os_walk_def
  select_image_urls_def logging_def process_file_def is_image_name_photo not_image_name_notes
  encode_image_to_base64_def b64encode_x b64encode_y move_def empty_db_def



lemma join_if_list_strings: "join_if_list sep (JArr (map JStr xs)) = Inr (JStr (join sep xs))"
  by (simp add: join_if_list_def strings_of_map_JStr)

lemma join_if_list_string: "join_if_list sep (JStr s) = Inr (JStr s)"
  by (simp add: join_if_list_def)

lemma insert_stored:
  assumes "insert_product_info w (JObj ps) img_path = (None, w')"
    and "rows (db w') \<noteq> rows (db w)"
    and "dict_get ps ''description'' = Some dv" and "dict_get ps ''key_tags'' = Some kv"
  shows "\<exists>d k. join_if_list [newline] dv = Inr d \<and> join_if_list '', '' kv = Inr k
            \<and> bind_param d = Inr (description (last (rows (db w'))))
            \<and> bind_param k = Inr (key_tags (last (rows (db w'))))"
  using assms
  by (auto simp: insert_product_info_def getitem_def execute_insert_def logging_def
           split: option.splits sum.splits exec_result.splits bind_error.splits if_splits
                  list.splits)

lemma log_logging [simp]: "log (logging e w) = log w @ [e]"
  by (simp add: logging_def)




























lemma analyze_unfenced:
  assumes "(if startswith ''```json'' (strip c) then strip_fence (strip c) else Inr (strip c))
             = Inr t"
    and "json_loads (replace_char (CHR 0x27) (CHR 0x22) t) = Inr v"
  shows "analyze_image_body (Content c) w
       = (Inr v, logging (ResponseText (strip c))
                   (logging ResponseStatus (logging SendingRequest w)))"
  using assms by (simp add: analyze_image_body_def Let_def)

section \<open>The claims\<close>

subsection \<open>C1: retries of the extraction\<close>

text \<open>
  \<^bold>\<open>C1.\<close> The claim says that a service failing on attempts 1 to 5 and answering on attempt 6
  gives a successful extraction. The function under the retry decorator catches every
  exception itself and returns the empty mapping, so the decorator never sees a failure:
  with such a service \<open>analyze_image\<close> makes one request, logs the failure and returns the
  empty mapping.
\<close>

theorem first_failure_is_final:
  "analyze_image flaky_backend enc w
     = (Inr (JObj []), logging RequestFailed (logging SendingRequest w))"
  by (simp add: analyze_image_first_attempt flaky_backend_def analyze_image_body_def)

subsection \<open>C2: one record per processed image\<close>




subsection \<open>C3: a record without a required field\<close>

text \<open>
  \<^bold>\<open>C3.\<close> For every record that lacks one of the ten required keys, \<open>insert_product_info\<close>
  raises the Missing-Field error naming the first missing key, whatever other keys are
  present; the world (catalog, files and log) is as before, and the outcome differs from
  that of a storage failure, which returns normally after logging.
\<close>

theorem missing_field_rejected:
  assumes "k \<in> set required_keys" and "dict_get ps k = None"
  shows "\<exists>k'. k' \<in> set required_keys \<and> dict_get ps k' = None
           \<and> insert_product_info w (JObj ps) img_path
               = (Some (KeyError (''Missing required field: '' @ k')), w)
           \<and> insert_product_info w (JObj ps) img_path \<noteq> (None, logging InsertFailed w)"
  using insert_missing [OF assms, of w img_path] by auto

text \<open>
  \<^bold>\<open>C3, witness.\<close> A record with nine of the ten keys, lacking \<open>key_tags\<close>.
\<close>

theorem missing_field_rejected_witness:
  "''key_tags'' \<in> set required_keys \<and> dict_get nine_fields_value ''key_tags'' = None
   \<and> (\<exists>k'. k' \<in> set required_keys \<and> dict_get nine_fields_value k' = None
         \<and> insert_product_info one_photo (JObj nine_fields_value) ''p''
             = (Some (KeyError (''Missing required field: '' @ k')), one_photo)
         \<and> insert_product_info one_photo (JObj nine_fields_value) ''p''
             \<noteq> (None, logging InsertFailed one_photo))"
proof -
  have h1: "''key_tags'' \<in> set required_keys" by (simp add: required_keys_def)
  have h2: "dict_get nine_fields_value ''key_tags'' = None" by (simp add: nine_fields_value_def)
  show ?thesis using h1 h2 missing_field_rejected [OF h1 h2, of one_photo "''p''"] by blast
qed

subsection \<open>C4: the dedup check and the codec\<close>

text \<open>
  \<^bold>\<open>C4, as amended.\<close> The codec is invoked before the dedup check. For an eligible file that encodes to a
  text that is not empty and whose destination is in the dedup set, the file is skipped:
  the skip is logged, nothing else changes and the extractor is not invoked. A file that
  is empty, unreadable or missing is skipped with the encoding warning whether or not its
  destination is in the dedup set.
\<close>

theorem dedup_check_follows_encoding:
  assumes "is_image_name fn"
  shows "(files w (path_join (root_of rel) fn) = Some (Bytes data) \<and> data \<noteq> []
          \<and> SText (new_image_path_of batch rel fn) \<in> ex
          \<longrightarrow> process_file backend ex batch rel fn w
              = (None, ex, logging (AlreadyExists fn)
                   (logging (ProcessingImage (path_join (root_of rel) fn))
                      (logging (FoundFile fn) w))))
       \<and> (files w (path_join (root_of rel) fn) = Some (Bytes [])
          \<longrightarrow> process_file backend ex batch rel fn w
              = (None, ex, logging (CouldNotEncode fn)
                   (logging (ProcessingImage (path_join (root_of rel) fn))
                      (logging (FoundFile fn) w))))
       \<and> (files w (path_join (root_of rel) fn) = Some Unreadable
          \<longrightarrow> process_file backend ex batch rel fn w
              = (None, ex, logging (CouldNotEncode fn)
                   (logging (ErrorEncodingImage (path_join (root_of rel) fn))
                      (logging (ProcessingImage (path_join (root_of rel) fn))
                         (logging (FoundFile fn) w)))))
       \<and> (files w (path_join (root_of rel) fn) = None
            \<or> files w (path_join (root_of rel) fn) = Some Dangling
          \<longrightarrow> process_file backend ex batch rel fn w
              = (None, ex, logging (CouldNotEncode fn)
                   (logging (ImageFileNotFound (path_join (root_of rel) fn))
                      (logging (ProcessingImage (path_join (root_of rel) fn))
                         (logging (FoundFile fn) w)))))"
  using assms
  by (auto simp: process_file_def Let_def encode_image_to_base64_def b64encode_nonempty)

text \<open>
  \<^bold>\<open>C4, witness.\<close> A readable photo whose destination is recorded.
\<close>

theorem dedup_check_follows_encoding_witness:
  "files reuploaded (path_join (root_of ''.'') ''photo.jpg'') = Some (Bytes ''x'')
   \<and> SText (new_image_path_of ''data/images/inventory/20240102-120000'' ''.'' ''photo.jpg'')
       \<in> select_image_urls reuploaded
   \<and> process_file (answers full_record) (select_image_urls reuploaded)
        ''data/images/inventory/20240102-120000'' ''.'' ''photo.jpg'' reuploaded
     = (None, select_image_urls reuploaded, logging (AlreadyExists ''photo.jpg'')
                (logging (ProcessingImage (path_join (root_of ''.'') ''photo.jpg''))
                   (logging (FoundFile ''photo.jpg'') reuploaded)))"
proof -
  have h1: "files reuploaded (path_join (root_of ''.'') ''photo.jpg'') = Some (Bytes ''x'')"
    by (simp add: example_paths reuploaded_def)
  have h2: "SText (new_image_path_of ''data/images/inventory/20240102-120000'' ''.'' ''photo.jpg'')
       \<in> select_image_urls reuploaded"
    by (simp add: example_paths select_image_urls_def reuploaded_def recorded_db_def full_row_def)
  show ?thesis
    using h1 h2
      dedup_check_follows_encoding [OF is_image_name_photo, of reuploaded "''.''" "''x''"
        "''data/images/inventory/20240102-120000''" "select_image_urls reuploaded"
        "answers full_record"]
    by simp
qed

text \<open>
  \<^bold>\<open>C4, counterexample.\<close> The claim says the file is skipped by the dedup check without invoking the codec. For
  an unreadable photo whose destination is in the dedup set, the log of the run shows the
  codec's own error and the encoding warning, and no dedup skip.
\<close>

theorem unreadable_file_meets_codec_first:
  "SText ''data/images/inventory/20240102-120000/photo.jpg'' \<in> select_image_urls unreadable_recorded
   \<and> log (final (process_uploaded_images top_dir noon (answers full_record) unreadable_recorded))
     = [StartProcessing, CreatedBatchDir ''data/images/inventory/20240102-120000'',
        Traversing ''data/images/uploads'', FoundFile ''photo.jpg'',
        ProcessingImage ''data/images/uploads/photo.jpg'',
        ErrorEncodingImage ''data/images/uploads/photo.jpg'', CouldNotEncode ''photo.jpg'',
        Finished ''data/images/inventory/20240102-120000'']"
  by (simp add: run_defs top_dir_def unreadable_recorded_def recorded_db_def full_row_def)

subsection \<open>C5: the dedup set during a run\<close>




subsection \<open>C6: moved, then rejected\<close>

text \<open>
  \<^bold>\<open>C6.\<close> For every eligible image that is readable, not empty and not in the dedup set, whose
  extraction is not empty and is rejected by the check of the required fields: the file
  is moved to its destination and is no longer at its original path, the catalog is as
  before, the last line logged is the error naming the missing field, no exception leaves
  the step, and the loop goes on with the next file from that state.
\<close>

theorem relocated_but_not_cataloged:
  assumes "valid_rel rel" and "valid_name fn" and "is_image_name fn"
    and "files w (path_join (root_of rel) fn) = Some (Bytes data)" and "data \<noteq> []"
    and "batch = path_join INVENTORY_IMAGES_DIR (strftime now)"
    and "SText (new_image_path_of batch rel fn) \<notin> ex"
    and "fst (analyze_image backend (b64encode data) w) = Inr product_info"
    and "truthy product_info"
    and "check_required product_info required_keys = Some (KeyError m)"
  shows "\<exists>w'. process_file backend ex batch rel fn w = (None, ex, w')
           \<and> files w' (path_join (root_of rel) fn) = None
           \<and> files w' (new_image_path_of batch rel fn) = Some (Bytes data)
           \<and> db w' = db w
           \<and> last (log w') = ErrorInserting fn m
           \<and> process_files backend ex batch rel (fn # rest) w
               = process_files backend ex batch rel rest w'"
proof -
  let ?src = "path_join (root_of rel) fn"
  let ?dst = "new_image_path_of batch rel fn"
  let ?w2 = "logging (ProcessingImage ?src) (logging (FoundFile fn) w)"
  have ne: "?src \<noteq> ?dst"
    unfolding assms(6) by (rule src_not_dest [OF assms(1,2) assms(1,2)])
  have enc: "encode_image_to_base64 ?w2 ?src = (Some (b64encode data), ?w2)"
    using assms(4) by (simp add: encode_image_to_base64_def)
  obtain w4 where an: "analyze_image backend (b64encode data) ?w2 = (Inr product_info, w4)"
      "files w4 = files ?w2" "db w4 = db ?w2"
    using analyze_image_result [OF assms(8), of ?w2] by blast
  let ?w5 = "w4\<lparr>files := (files w4)(?src := None, ?dst \<mapsto> Bytes data)\<rparr>"
  have mv: "move w4 ?src ?dst = (None, ?w5)"
    using an(2) assms(4) by (simp add: move_def)
  have ins: "insert_product_info ?w5 product_info ?dst = (Some (KeyError m), ?w5)"
    using assms(10) by (simp add: insert_product_info_def)
  let ?w' = "logging (ErrorInserting fn m) ?w5"
  have pf: "process_file backend ex batch rel fn w = (None, ex, ?w')"
    using assms(3,5,7,9) enc an(1) mv ins
    by (simp add: process_file_def Let_def b64encode_nonempty)
  have "files ?w' ?src = None \<and> files ?w' ?dst = Some (Bytes data) \<and> db ?w' = db w
      \<and> last (log ?w') = ErrorInserting fn m"
    using ne an(3) by simp
  moreover have "process_files backend ex batch rel (fn # rest) w
               = process_files backend ex batch rel rest ?w'"
    by (simp add: pf)
  ultimately show ?thesis using pf by blast
qed

text \<open>
  \<^bold>\<open>C6, witness.\<close> An answer with nine fields, lacking \<open>key_tags\<close>.
\<close>

theorem relocated_but_not_cataloged_witness:
  "fst (analyze_image (answers nine_fields) (b64encode ''x'') one_photo) = Inr (JObj nine_fields_value)
   \<and> check_required (JObj nine_fields_value) required_keys
       = Some (KeyError ''Missing required field: key_tags'')
   \<and> (\<exists>w'. process_file (answers nine_fields) {}
                 (path_join INVENTORY_IMAGES_DIR (strftime noon)) ''.'' ''photo.jpg'' one_photo
               = (None, {}, w')
         \<and> files w' (path_join (root_of ''.'') ''photo.jpg'') = None
         \<and> files w' (new_image_path_of (path_join INVENTORY_IMAGES_DIR (strftime noon))
                        ''.'' ''photo.jpg'') = Some (Bytes ''x'')
         \<and> db w' = db one_photo
         \<and> last (log w') = ErrorInserting ''photo.jpg'' ''Missing required field: key_tags''
         \<and> process_files (answers nine_fields) {}
               (path_join INVENTORY_IMAGES_DIR (strftime noon)) ''.'' [''photo.jpg''] one_photo
             = process_files (answers nine_fields) {}
                 (path_join INVENTORY_IMAGES_DIR (strftime noon)) ''.'' [] w')"
proof -
  have h1: "valid_rel ''.''" by (simp add: valid_rel_def)
  have h2: "valid_name ''photo.jpg''" by (simp add: valid_name_def)
  have h4: "files one_photo (path_join (root_of ''.'') ''photo.jpg'') = Some (Bytes ''x'')"
    by (simp add: example_paths one_photo_def)
  have h5: "''x'' \<noteq> []" by simp
  have h7: "SText (new_image_path_of (path_join INVENTORY_IMAGES_DIR (strftime noon))
                ''.'' ''photo.jpg'') \<notin> {}" by simp
  have h8: "fst (analyze_image (answers nine_fields) (b64encode ''x'') one_photo)
              = Inr (JObj nine_fields_value)"
    by (simp add: analyze_answers_nine)
  have h9: "truthy (JObj nine_fields_value)" by (simp add: example_truthy)
  have h10: "check_required (JObj nine_fields_value) required_keys
       = Some (KeyError ''Missing required field: key_tags'')"
    by (simp add: required_keys_def contains_def nine_fields_value_def)
  show ?thesis
    using h8 h10
      relocated_but_not_cataloged [where backend = "answers nine_fields" and data = "''x''"
        and w = one_photo and rel = "''.''" and fn = "''photo.jpg''" and ex = "{}"
        and now = noon and product_info = "JObj nine_fields_value"
        and m = "''Missing required field: key_tags''" and rest = "[]",
        OF h1 h2 is_image_name_photo h4 h5 refl h7 h8 h9 h10]
    by simp
qed

subsection \<open>C7: list-valued fields\<close>

text \<open>
  \<^bold>\<open>C7, as amended.\<close> When \<open>insert_product_info\<close> stores a row, a \<open>description\<close> given as a list of strings
  is stored joined by newlines and a \<open>key_tags\<close> given as a list of strings is stored
  joined by a comma and a space; a plain string is stored unchanged. For a list that is
  not empty and whose strings do not contain the delimiter, splitting the stored string
  on the delimiter gives as many segments as the list has strings.
\<close>

theorem list_fields_normalised:
  assumes "insert_product_info w (JObj ps) img_path = (None, w')"
    and "rows (db w') \<noteq> rows (db w)"
    and "dict_get ps ''description'' = Some dv" and "dict_get ps ''key_tags'' = Some kv"
  shows "(\<forall>ds. dv = JArr (map JStr ds)
            \<longrightarrow> description (last (rows (db w'))) = SText (join [newline] ds))
       \<and> (\<forall>s. dv = JStr s \<longrightarrow> description (last (rows (db w'))) = SText s)
       \<and> (\<forall>ts. kv = JArr (map JStr ts)
            \<longrightarrow> key_tags (last (rows (db w'))) = SText (join '', '' ts))
       \<and> (\<forall>s. kv = JStr s \<longrightarrow> key_tags (last (rows (db w'))) = SText s)
       \<and> (\<forall>xs. xs \<noteq> [] \<and> list_all (\<lambda>x. \<not> has_sub [newline] x) xs
            \<longrightarrow> length (split_on [newline] (join [newline] xs)) = length xs)
       \<and> (\<forall>xs. xs \<noteq> [] \<and> list_all (\<lambda>x. \<not> has_sub '', '' x) xs
            \<longrightarrow> length (split_on '', '' (join '', '' xs)) = length xs)"
proof -
  obtain d k where s: "join_if_list [newline] dv = Inr d" "join_if_list '', '' kv = Inr k"
      "bind_param d = Inr (description (last (rows (db w'))))"
      "bind_param k = Inr (key_tags (last (rows (db w'))))"
    using insert_stored [OF assms] by blast
  have a: "\<forall>ds. dv = JArr (map JStr ds)
            \<longrightarrow> description (last (rows (db w'))) = SText (join [newline] ds)"
    using s(1,3) by (auto simp: join_if_list_strings bind_param_def)
  have b: "\<forall>s. dv = JStr s \<longrightarrow> description (last (rows (db w'))) = SText s"
    using s(1,3) by (auto simp: join_if_list_string bind_param_def)
  have c: "\<forall>ts. kv = JArr (map JStr ts)
            \<longrightarrow> key_tags (last (rows (db w'))) = SText (join '', '' ts)"
    using s(2,4) by (auto simp: join_if_list_strings bind_param_def)
  have e: "\<forall>s. kv = JStr s \<longrightarrow> key_tags (last (rows (db w'))) = SText s"
    using s(2,4) by (auto simp: join_if_list_string bind_param_def)
  show ?thesis
    using a b c e by (simp add: split_on_join_newline split_on_join_comma)
qed

text \<open>
  \<^bold>\<open>C7, witness.\<close> Storing \<open>full_record\<close>, whose description and key tags are lists of two strings.
\<close>

theorem list_fields_normalised_witness:
  "insert_product_info one_photo (JObj full_record_value) ''p''
     = (None, logging (InsertedProductInfo ''p'')
                (one_photo\<lparr>db := \<lparr>rows = [full_row 1 ''p''], seq = 1\<rparr>\<rparr>))
   \<and> description (full_row 1 ''p'') = SText (join [newline] [''a'', ''b''])
   \<and> key_tags (full_row 1 ''p'') = SText (join '', '' [''k'', ''l''])
   \<and> length (split_on [newline] (join [newline] [''a'', ''b''])) = length [''a'', ''b'']
   \<and> length (split_on '', '' (join '', '' [''k'', ''l''])) = length [''k'', ''l'']"
proof -
  let ?w' = "logging (InsertedProductInfo ''p'') (one_photo\<lparr>db := \<lparr>rows = [full_row 1 ''p''], seq = 1\<rparr>\<rparr>)"
  have h1: "insert_product_info one_photo (JObj full_record_value) ''p'' = (None, ?w')"
    by (simp add: insert_full_record one_photo_def empty_db_def)
  have h2: "rows (db ?w') \<noteq> rows (db one_photo)"
    by (simp add: one_photo_def empty_db_def)
  have h3: "dict_get full_record_value ''description'' = Some (JArr (map JStr [''a'', ''b'']))"
    by (simp add: full_record_value_def)
  have h4: "dict_get full_record_value ''key_tags'' = Some (JArr (map JStr [''k'', ''l'']))"
    by (simp add: full_record_value_def)
  have l: "last (rows (db ?w')) = full_row 1 ''p''" by simp
  have n: "list_all (\<lambda>x. \<not> has_sub [newline] x) [''a'', ''b'']"
          "list_all (\<lambda>x. \<not> has_sub '', '' x) [''k'', ''l'']"
    by (simp_all add: startswith_def newline_def)
  from list_fields_normalised [OF h1 h2 h3 h4] h1 l n show ?thesis
    by (metis list.distinct(1))
qed

text \<open>
  \<^bold>\<open>C7, counterexample.\<close> The claim's round trip fails for the empty list: it is stored as the empty string, and
  splitting the empty string gives one segment, not zero.
\<close>

theorem empty_list_round_trip_fails:
  "join_if_list '', '' (JArr (map JStr [])) = Inr (JStr (join '', '' []))
   \<and> length (split_on '', '' (join '', '' [])) = 1
   \<and> length ([] :: string list) = 0"
  by (simp add: join_if_list_def)

subsection \<open>C8: running again\<close>




subsection \<open>C9: fenced answers with single quotes\<close>

text \<open>
  \<^bold>\<open>C9.\<close> The claim is about every fenced code block, and the comment in \<open>analyze_image\<close>
  says that any markdown formatting is removed; the code strips the fence only when the
  text starts with the fence tagged \<open>json\<close>. The record with the ten fields, with
  single-quoted keys and values, is returned parsed when its fence has the tag; in a
  fence without the tag the fence lines stay, the decoder fails and the extraction
  returns the empty mapping.
\<close>

theorem plain_fence_not_stripped:
  "plain_fenced = ''```'' @ [newline] @ single_quoted @ [newline] @ ''```''
   \<and> replace_char (CHR 0x27) (CHR 0x22) single_quoted = full_record
   \<and> json_loads full_record = Inr (JObj full_record_value)
   \<and> check_required (JObj full_record_value) required_keys = None
   \<and> fst (analyze_image (answers json_fenced) enc w) = Inr (JObj full_record_value)
   \<and> analyze_image (answers plain_fenced) enc w
       = (Inr (JObj []),
          logging (DecodeFailedText (replace_char (CHR 0x27) (CHR 0x22) plain_fenced))
            (logging DecodeFailed
              (logging (ResponseText plain_fenced)
                (logging ResponseStatus (logging SendingRequest w)))))"
proof -
  have j: "fst (analyze_image (answers json_fenced) enc w) = Inr (JObj full_record_value)"
  proof (rule fenced_parsed)
    show "answers json_fenced enc 1 = Content json_fenced" by (simp add: answers_def)
    show "strip json_fenced = ''```json'' @ [] @ newline # single_quoted @ newline # ''```''"
      unfolding text_facts by (simp add: json_fenced_def)
    show "newline \<notin> set []" by simp
    show "newline \<notin> set ''```''" by (simp add: newline_def)
    show "json_loads (replace_char (CHR 0x27) (CHR 0x22) single_quoted)
            = Inr (JObj full_record_value)"
      by (simp add: single_quoted_repaired json_loads_full_record)
  qed
  have p: "analyze_image (answers plain_fenced) enc w
       = (Inr (JObj []),
          logging (DecodeFailedText (replace_char (CHR 0x27) (CHR 0x22) plain_fenced))
            (logging DecodeFailed
              (logging (ResponseText plain_fenced)
                (logging ResponseStatus (logging SendingRequest w)))))"
    by (simp add: analyze_image_first_attempt answers_def analyze_image_body_def Let_def
          text_facts plain_fenced_rejected)
  have r: "check_required (JObj full_record_value) required_keys = None"
    by (simp add: required_keys_def contains_def full_record_value_def)
  show ?thesis
    using j p r by (simp add: plain_fenced_def single_quoted_repaired json_loads_full_record)
qed

subsection \<open>C10: an empty object\<close>

text \<open>
  \<^bold>\<open>C10.\<close> When the text the decoder is given (the service's text, stripped, without its fence
  when it has one tagged \<open>json\<close>, with double quotes for single ones) decodes to the empty
  object, the extraction returns the empty mapping, as it does when the request fails; in
  both cases the pipeline skips the file in the same way: nothing is moved, nothing is
  recorded, and the failure to analyse the image is the last line logged.
\<close>

theorem empty_object_skipped_like_failure:
  assumes "is_image_name fn"
    and "files w (path_join (root_of rel) fn) = Some (Bytes data)" and "data \<noteq> []"
    and "SText (new_image_path_of batch rel fn) \<notin> ex"
    and "backend (b64encode data) 1 = Content c"
    and "(if startswith ''```json'' (strip c) then strip_fence (strip c) else Inr (strip c))
           = Inr t"
    and "json_loads (replace_char (CHR 0x27) (CHR 0x22) t) = Inr (JObj [])"
    and "failing (b64encode data) 1 = RequestFailure"
  shows "fst (analyze_image backend (b64encode data) w) = Inr (JObj [])
       \<and> fst (analyze_image failing (b64encode data) w) = Inr (JObj [])
       \<and> (\<exists>w'. process_file backend ex batch rel fn w = (None, ex, w')
              \<and> files w' = files w \<and> db w' = db w \<and> last (log w') = FailedToAnalyze fn)
       \<and> (\<exists>w'. process_file failing ex batch rel fn w = (None, ex, w')
              \<and> files w' = files w \<and> db w' = db w \<and> last (log w') = FailedToAnalyze fn)"
proof -
  let ?src = "path_join (root_of rel) fn"
  let ?w2 = "logging (ProcessingImage ?src) (logging (FoundFile fn) w)"
  have enc: "encode_image_to_base64 ?w2 ?src = (Some (b64encode data), ?w2)"
    using assms(2) by (simp add: encode_image_to_base64_def)
  have a: "\<And>v. analyze_image backend (b64encode data) v
     = (Inr (JObj []), logging (ResponseText (strip c)) (logging ResponseStatus (logging SendingRequest v)))"
    using assms(5) analyze_unfenced [OF assms(6,7)]
    by (simp add: analyze_image_first_attempt)
  have b: "\<And>v. analyze_image failing (b64encode data) v
     = (Inr (JObj []), logging RequestFailed (logging SendingRequest v))"
    using assms(8) by (simp add: analyze_image_first_attempt analyze_image_body_def)
  have pa: "process_file backend ex batch rel fn w
     = (None, ex, logging (FailedToAnalyze fn)
          (logging (ResponseText (strip c)) (logging ResponseStatus (logging SendingRequest ?w2))))"
    using assms(1,3,4) enc by (simp add: process_file_def Let_def b64encode_nonempty a)
  have pb: "process_file failing ex batch rel fn w
     = (None, ex, logging (FailedToAnalyze fn) (logging RequestFailed (logging SendingRequest ?w2)))"
    using assms(1,3,4) enc by (simp add: process_file_def Let_def b64encode_nonempty b)
  show ?thesis unfolding pa pb by (simp add: a b)
qed

text \<open>
  \<^bold>\<open>C10, witness.\<close> A service answering \<open>{}\<close>, beside one whose request fails.
\<close>

theorem empty_object_skipped_like_failure_witness:
  \<open>json_loads (replace_char (CHR 0x27) (CHR 0x22) ''{}'') = Inr (JObj [])
   \<and> fst (analyze_image (answers ''{}'') (b64encode ''x'') one_photo) = Inr (JObj [])
   \<and> fst (analyze_image flaky_backend (b64encode ''x'') one_photo) = Inr (JObj [])
   \<and> (\<exists>w'. process_file (answers ''{}'') {} ''data/images/inventory/20240102-120000'' ''.''
               ''photo.jpg'' one_photo = (None, {}, w')
         \<and> files w' = files one_photo \<and> db w' = db one_photo
         \<and> last (log w') = FailedToAnalyze ''photo.jpg'')
   \<and> (\<exists>w'. process_file flaky_backend {} ''data/images/inventory/20240102-120000'' ''.''
               ''photo.jpg'' one_photo = (None, {}, w')
         \<and> files w' = files one_photo \<and> db w' = db one_photo
         \<and> last (log w') = FailedToAnalyze ''photo.jpg'')\<close>
proof -
  have s: \<open>strip ''{}'' = ''{}''\<close> \<open>replace_char (CHR 0x27) (CHR 0x22) ''{}'' = ''{}''\<close>
    by code_simp+
  have h2: "files one_photo (path_join (root_of ''.'') ''photo.jpg'') = Some (Bytes ''x'')"
    by (simp add: example_paths one_photo_def)
  have h3: "''x'' \<noteq> []" by simp
  have h4: "SText (new_image_path_of ''data/images/inventory/20240102-120000'' ''.'' ''photo.jpg'') \<notin> {}"
    by simp
  have h5: \<open>answers ''{}'' (b64encode ''x'') 1 = Content ''{}''\<close>
    by (simp add: answers_def)
  have h6: \<open>(if startswith ''```json'' (strip ''{}'') then strip_fence (strip ''{}'')
             else Inr (strip ''{}'')) = Inr ''{}''\<close>
    unfolding s by (simp add: startswith_def)
  have h7: \<open>json_loads (replace_char (CHR 0x27) (CHR 0x22) ''{}'') = Inr (JObj [])\<close>
    unfolding s by (rule json_loads_empty_object)
  have h8: "flaky_backend (b64encode ''x'') 1 = RequestFailure"
    by (simp add: flaky_backend_def)
  show ?thesis
    using h7
      empty_object_skipped_like_failure [where backend = "answers ''{}''"
        and failing = flaky_backend and data = "''x''" and c = "''{}''" and t = "''{}''"
        and w = one_photo
        and rel = "''.''" and fn = "''photo.jpg''" and ex = "{}"
        and batch = "''data/images/inventory/20240102-120000''",
        OF is_image_name_photo h2 h3 h4 h5 h6 h7 h8]
    by simp
qed

end
